theory Spec2Isabelle
  imports Main "HOL-Library.Sublist"
begin

section \<open>Strings, numbers and the e-mail pattern\<close>

text \<open>
  A JavaScript string is modelled as a \<^typ>\<open>string\<close>; a \<^typ>\<open>char\<close> stands for a
  code unit below 256. An optional JSON field or environment variable is a
  \<^typ>\<open>string option\<close>, \<open>None\<close> being \<^verbatim>\<open>undefined\<close>. The empty string and
  \<^verbatim>\<open>undefined\<close> are the falsy values.
\<close>

definition truthy :: "string option \<Rightarrow> bool" where
  "truthy v = (case v of None \<Rightarrow> False | Some s \<Rightarrow> s \<noteq> [])"

text \<open>\<^verbatim>\<open>v || d\<close> on an optional string.\<close>

definition or_else :: "string option \<Rightarrow> string \<Rightarrow> string" where
  "or_else v d = (case v of None \<Rightarrow> d | Some s \<Rightarrow> if s = [] then d else s)"

text \<open>\<^verbatim>\<open>${v}\<close> inside a template literal.\<close>

definition tmpl :: "string option \<Rightarrow> string" where
  "tmpl v = (case v of None \<Rightarrow> ''undefined'' | Some s \<Rightarrow> s)"

text \<open>\<^verbatim>\<open>${n}\<close> for a non-negative integer: its decimal digits.\<close>

definition digit :: "nat \<Rightarrow> char" where
  "digit n = ''0123456789'' ! n"

fun show_nat :: "nat \<Rightarrow> string" where
  "show_nat n = (if n < 10 then [digit n] else show_nat (n div 10) @ [digit (n mod 10)])"

declare show_nat.simps [simp del]

text \<open>\<^verbatim>\<open>s.includes(sub)\<close>.\<close>

definition str_includes :: "string \<Rightarrow> string \<Rightarrow> bool" where
  "str_includes s sub = sublist sub s"

text \<open>
  The pattern \<^verbatim>\<open>/^[^\s@]+@[^\s@]+\.[^\s@]+$/\<close> is a sequence of items, each a single
  atom or an atom under \<^verbatim>\<open>+\<close>; an atom is a literal character or a negated class
  \<^verbatim>\<open>[^\s...]\<close>. The pattern is anchored at both ends, so \<^verbatim>\<open>test\<close> asks whether the
  whole string is matched.
\<close>

text \<open>
  \<^verbatim>\<open>\s\<close> among the code units below 256: tab, line feed, vertical tab, form feed,
  carriage return, space and the no-break space.
\<close>

definition is_space :: "char \<Rightarrow> bool" where
  "is_space c = (of_char c \<in> {9, 10, 11, 12, 13, 32, 160 :: nat})"

datatype atom = Lit char | NotSpaceNor "char list"

datatype item = One atom | Many1 atom

fun atom_ok :: "atom \<Rightarrow> char \<Rightarrow> bool" where
  "atom_ok (Lit a) c = (c = a)"
| "atom_ok (NotSpaceNor cs) c = (\<not> is_space c \<and> c \<notin> set cs)"

fun rx_test :: "item list \<Rightarrow> string \<Rightarrow> bool" where
  "rx_test [] s = (s = [])"
| "rx_test (One a # r) [] = False"
| "rx_test (One a # r) (c # s) = (atom_ok a c \<and> rx_test r s)"
| "rx_test (Many1 a # r) [] = False"
| "rx_test (Many1 a # r) (c # s) = (atom_ok a c \<and> (rx_test r s \<or> rx_test (Many1 a # r) s))"

definition emailRegex :: "item list" where
  "emailRegex =
     [Many1 (NotSpaceNor ''@''), One (Lit (CHR ''@'')),
      Many1 (NotSpaceNor ''@''), One (Lit (CHR ''.'')),
      Many1 (NotSpaceNor ''@'')]"

definition isValidEmail :: "string \<Rightarrow> bool" where
  "isValidEmail email = rx_test emailRegex email"


section \<open>Requests, the platform and replies\<close>

text \<open>
  A handler is modelled by what the caller and the platform can observe of one
  invocation: the outbound calls, in the order they are issued, and the status and JSON
  object of the reply. The response headers (CORS, caching) and the log lines are left
  out; they depend on nothing below and nothing below depends on them.
\<close>

text \<open>
  The body fields the handlers destructure (\<^verbatim>\<open>marketing_consent\<close> is destructured by
  two of them and never read, so it is left out).
\<close>

record payload =
  p_email :: "string option"
  p_source :: "string option"
  p_discount_code :: "string option"
  p_tags :: "string option"

text \<open>
  \<^verbatim>\<open>req.body\<close> as the runtime may hand it over: absent, \<^verbatim>\<open>null\<close>, a string, an
  object (of which the fields above are kept; an array is an object with none of them),
  or a number or boolean, given by its \<^verbatim>\<open>typeof\<close> and its \<^verbatim>\<open>String(...)\<close>.
\<close>

datatype req_body =
  BodyUndefined | BodyNull | BodyString string | BodyObject payload | BodyOther string string

record request =
  req_method :: string
  req_body :: req_body

record env =
  SHOPIFY_SHOP_DOMAIN :: "string option"
  SHOPIFY_ACCESS_TOKEN :: "string option"
  NODE_ENV :: "string option"

datatype js_error = JsError (message: string) (stack: string)

text \<open>
  What \<^verbatim>\<open>JSON.parse\<close> of a request body returns when it does not throw:
  \<^verbatim>\<open>null\<close>, an object (of which the fields above are kept), or another value (a
  number, string, boolean or array, none of which has any of the fields), given by its
  JSON text.
\<close>

datatype json_value = JNull | JObject payload | JOther string

text \<open>
  A customer record as \<^verbatim>\<open>response.json()\<close> hands it to the handler. The handlers only
  pass the \<^verbatim>\<open>id\<close> on: into a template literal and into the JSON of a body or of the
  reply. It is held by its string form \<^verbatim>\<open>String(id)\<close>, which is what the template
  literal inserts; whatever the JSON parser did to the digits the platform sent (a number
  above \<open>2\<^sup>5\<^sup>3\<close> is rounded) lies before this value.
\<close>

record customer =
  c_id :: string
  c_email :: string
  c_tags :: "string option"
  c_admin_graphql_api_id :: "string option"

text \<open>
  A response document of the platform, projected on the two properties the handlers
  read: \<^verbatim>\<open>customers\<close> of a search and \<^verbatim>\<open>customer\<close> of a create.
\<close>

record json_doc =
  doc_customers :: "customer list option"
  doc_customer :: "customer option"

datatype json_result = JsonThrows js_error | JsonNull | JsonDoc json_doc

text \<open>
  The body of a response is read once, by \<^verbatim>\<open>text()\<close> or by \<^verbatim>\<open>json()\<close>. Either the
  read fails, and both reject with that error, or it gives a text, and \<open>json()\<close>
  (like \<^verbatim>\<open>JSON.parse\<close> of that text) gives what the text parses to.
\<close>

datatype body_read = Unreadable js_error | Readable string json_result

record http_response =
  resp_status :: nat
  resp_body :: body_read

text \<open>\<^verbatim>\<open>await response.text()\<close>: \<open>Inl\<close> when it rejects.\<close>

definition resp_text :: "http_response \<Rightarrow> js_error + string" where
  "resp_text r = (case resp_body r of Unreadable err \<Rightarrow> Inl err | Readable txt j \<Rightarrow> Inr txt)"

text \<open>
  \<^verbatim>\<open>await response.json()\<close>, and \<^verbatim>\<open>JSON.parse\<close> of the text once it has been read.
\<close>

definition resp_json :: "http_response \<Rightarrow> json_result" where
  "resp_json r = (case resp_body r of Unreadable err \<Rightarrow> JsonThrows err | Readable txt j \<Rightarrow> j)"

text \<open>\<^verbatim>\<open>response.ok\<close> of the fetch API.\<close>

definition ok :: "http_response \<Rightarrow> bool" where
  "ok r = (200 \<le> resp_status r \<and> resp_status r \<le> 299)"

datatype fetch_result = Rejects js_error | Resolves http_response

record consent =
  state :: string
  opt_in_level :: string
  consent_updated_at :: string

record metafield =
  mf_namespace :: string
  mf_key :: string
  mf_value :: "string option"
  mf_type :: string

text \<open>The \<^verbatim>\<open>customer\<close> objects of the three kinds of write.\<close>

record update_customer =
  uc_id :: string
  uc_email_marketing_consent :: consent
  uc_tags :: "string option"

record create_customer =
  cc_email :: string
  cc_email_marketing_consent :: consent
  cc_tags :: string
  cc_note :: string
  cc_metafields :: "metafield list"

record legacy_customer =
  lc_email :: string
  lc_accepts_marketing :: bool
  lc_tags :: string
  lc_note :: string
  lc_marketing_opt_in_level :: string
  lc_verified_email :: bool

datatype out_body =
  NoBody | UpdateData update_customer | CustomerData create_customer | LegacyData legacy_customer

text \<open>One outbound \<^verbatim>\<open>fetch(url, {method, headers, body})\<close>.\<close>

record outbound =
  ob_method :: string
  ob_url :: string
  ob_token :: string
  ob_body :: out_body

text \<open>
  What the handler does not compute itself: the platform behind \<^verbatim>\<open>fetch\<close>, the clock
  (\<open>toISOString w k\<close> is the \<open>k\<close>-th \<^verbatim>\<open>new Date()\<close> of the invocation, rendered),
  \<^verbatim>\<open>JSON.parse\<close>, \<^verbatim>\<open>encodeURIComponent\<close>, the \<^verbatim>\<open>TypeError\<close> the engine raises when
  a property of \<^verbatim>\<open>null\<close> or \<^verbatim>\<open>undefined\<close> is read, and the stack it attaches to a
  new \<^verbatim>\<open>Error\<close>.
\<close>

record world =
  fetch :: "outbound \<Rightarrow> fetch_result"
  toISOString :: "nat \<Rightarrow> string"
  toLocaleDateString :: "nat \<Rightarrow> string"
  JSON_parse :: "string \<Rightarrow> js_error + json_value"
  encodeURIComponent :: "string \<Rightarrow> string"
  type_error :: "string \<Rightarrow> js_error"
  new_stack :: "string \<Rightarrow> string"

text \<open>
  A value of the reply's JSON object: a boolean, a customer id, a string, an echoed
  request object (by the fields above), another echoed value (by its JSON text), or
  \<^verbatim>\<open>undefined\<close>, which is not serialised.
\<close>

datatype jv = JBool bool | JId string | JStr string | JObj payload | JRaw string | JUndefined

datatype reply = End nat | Json nat "(string \<times> jv) list"

fun code :: "reply \<Rightarrow> nat" where
  "code (End n) = n"
| "code (Json n fs) = n"

fun field :: "reply \<Rightarrow> string \<Rightarrow> jv option" where
  "field (End n) k = None"
| "field (Json n fs) k =
     (case map_of fs k of None \<Rightarrow> None | Some JUndefined \<Rightarrow> None | Some v \<Rightarrow> Some v)"

text \<open>The outbound calls of one invocation, in order, and the reply sent.\<close>

record outcome =
  calls :: "outbound list"
  reply :: reply

section \<open>What the three find-or-create handlers share\<close>

definition default_tags :: string where
  "default_tags = ''newsletter,discount-popup,popup-subscriber''"

definition search_request :: "world \<Rightarrow> string \<Rightarrow> string \<Rightarrow> string \<Rightarrow> outbound" where
  "search_request w shopifyDomain accessToken email =
     \<lparr>ob_method = ''GET'',
      ob_url = ''https://'' @ shopifyDomain @
        ''/admin/api/2023-10/customers/search.json?query=email:'' @ encodeURIComponent w email,
      ob_token = accessToken, ob_body = NoBody\<rparr>"

definition update_url :: "string \<Rightarrow> string \<Rightarrow> string" where
  "update_url shopifyDomain i =
     ''https://'' @ shopifyDomain @ ''/admin/api/2023-10/customers/'' @ i @ ''.json''"

definition create_url :: "string \<Rightarrow> string" where
  "create_url shopifyDomain = ''https://'' @ shopifyDomain @ ''/admin/api/2023-10/customers.json''"

definition email_marketing_consent :: "world \<Rightarrow> nat \<Rightarrow> consent" where
  "email_marketing_consent w k =
     \<lparr>state = ''subscribed'', opt_in_level = ''single_opt_in'',
      consent_updated_at = toISOString w k\<rparr>"

definition update_request :: "string \<Rightarrow> string \<Rightarrow> update_customer \<Rightarrow> outbound" where
  "update_request shopifyDomain accessToken u =
     \<lparr>ob_method = ''PUT'', ob_url = update_url shopifyDomain (uc_id u),
      ob_token = accessToken, ob_body = UpdateData u\<rparr>"

definition create_request :: "string \<Rightarrow> string \<Rightarrow> create_customer \<Rightarrow> outbound" where
  "create_request shopifyDomain accessToken c =
     \<lparr>ob_method = ''POST'', ob_url = create_url shopifyDomain,
      ob_token = accessToken, ob_body = CustomerData c\<rparr>"

definition no_call :: "reply \<Rightarrow> outcome" where
  "no_call r = \<lparr>calls = [], reply = r\<rparr>"

definition stack_field :: "env \<Rightarrow> js_error \<Rightarrow> jv" where
  "stack_field e err = (if NODE_ENV e = Some ''development'' then JStr (stack err) else JUndefined)"


section \<open>The find-or-create handler of src/api/webhook.js (its second \<^verbatim>\<open>handler\<close>)\<close>

definition parse_body_2 :: "world \<Rightarrow> req_body \<Rightarrow> reply + json_value" where
  "parse_body_2 w b =
     (case b of
        BodyString s \<Rightarrow>
          (case JSON_parse w s of
             Inl parseError \<Rightarrow>
               Inl (Json 400 [(''error'', JStr ''Invalid JSON in request body''),
                              (''details'', JStr (message parseError)),
                              (''received'', JStr (take 200 s))])
           | Inr v \<Rightarrow> Inr v)
      | BodyObject parsedBody \<Rightarrow> Inr (JObject parsedBody)
      | BodyNull \<Rightarrow>
          Inl (Json 400 [(''error'', JStr ''Invalid JSON in request body''),
                         (''details'', JStr ''Invalid body type: object''),
                         (''received'', JStr ''null'')])
      | BodyUndefined \<Rightarrow>
          Inl (Json 400 [(''error'', JStr ''Invalid JSON in request body''),
                         (''details'', JStr ''Invalid body type: undefined''),
                         (''received'', JStr ''undefined'')])
      | BodyOther ty str \<Rightarrow>
          Inl (Json 400 [(''error'', JStr ''Invalid JSON in request body''),
                         (''details'', JStr (''Invalid body type: '' @ ty)),
                         (''received'', JStr str)]))"

text \<open>The inner and the outer \<^verbatim>\<open>catch\<close>.\<close>

definition shopify_failed_2 :: "js_error \<Rightarrow> reply" where
  "shopify_failed_2 shopifyError =
     Json 500 [(''error'', JStr ''Shopify API request failed''),
               (''details'', JStr (message shopifyError))]"

definition internal_error_2 :: "env \<Rightarrow> js_error \<Rightarrow> reply" where
  "internal_error_2 e err =
     Json 500 [(''error'', JStr ''Internal server error''),
               (''details'', JStr (message err)),
               (''stack'', stack_field e err)]"

definition customerData_2 :: "world \<Rightarrow> payload \<Rightarrow> string \<Rightarrow> nat \<Rightarrow> create_customer" where
  "customerData_2 w p email k =
     \<lparr>cc_email = email,
      cc_email_marketing_consent = email_marketing_consent w k,
      cc_tags = or_else (p_tags p) default_tags,
      cc_note = ''Customer created via discount popup. Source: '' @
        or_else (p_source p) ''discount_popup'' @ ''. Discount code: '' @
        or_else (p_discount_code p) ''WELCOME10'' @ ''. Created: '' @ toISOString w (k + 1),
      cc_metafields =
        [\<lparr>mf_namespace = ''discount_popup'', mf_key = ''source'',
          mf_value = Some (or_else (p_source p) ''discount_popup''),
          mf_type = ''single_line_text_field''\<rparr>,
         \<lparr>mf_namespace = ''discount_popup'', mf_key = ''discount_code'',
          mf_value = Some (or_else (p_discount_code p) ''WELCOME10''),
          mf_type = ''single_line_text_field''\<rparr>,
         \<lparr>mf_namespace = ''discount_popup'', mf_key = ''created_via'',
          mf_value = Some ''popup_webhook'',
          mf_type = ''single_line_text_field''\<rparr>]\<rparr>"

text \<open>The reply once the create call has settled.\<close>

definition create_reply_2 :: "world \<Rightarrow> fetch_result \<Rightarrow> reply" where
  "create_reply_2 w r =
     (case r of
        Rejects err \<Rightarrow> shopify_failed_2 err
      | Resolves createResponse \<Rightarrow>
          (case resp_text createResponse of
             Inl err \<Rightarrow> shopify_failed_2 err
           | Inr responseText \<Rightarrow>
               if ok createResponse then
                 (case resp_json createResponse of
                    JsonThrows err \<Rightarrow> shopify_failed_2 err
                  | JsonNull \<Rightarrow> shopify_failed_2 (type_error w ''result.customer'')
                  | JsonDoc result \<Rightarrow>
                      (case doc_customer result of
                         None \<Rightarrow> shopify_failed_2 (type_error w ''result.customer.id'')
                       | Some c \<Rightarrow>
                           Json 200 [(''success'', JBool True),
                                     (''message'', JStr ''Customer created successfully''),
                                     (''customer_id'', JId (c_id c)),
                                     (''email'', JStr (c_email c)),
                                     (''existing_customer'', JBool False)]))
               else
                 Json 500 [(''error'', JStr ''Failed to create customer''),
                           (''details'', JStr (''Shopify API Error: '' @
                              show_nat (resp_status createResponse) @ '' - '' @
                              responseText))]))"

text \<open>
  The create step, after the calls \<open>done\<close> and \<open>k\<close> readings of the clock.
\<close>

definition create_step_2 ::
  "world \<Rightarrow> string \<Rightarrow> string \<Rightarrow> payload \<Rightarrow> string \<Rightarrow> outbound list \<Rightarrow> nat \<Rightarrow> outcome" where
  "create_step_2 w shopifyDomain accessToken p email done k =
     (let cr = create_request shopifyDomain accessToken (customerData_2 w p email k)
      in \<lparr>calls = done @ [cr], reply = create_reply_2 w (fetch w cr)\<rparr>)"

definition updateData_2 :: "world \<Rightarrow> payload \<Rightarrow> customer \<Rightarrow> update_customer" where
  "updateData_2 w p existingCustomer =
     (let existingTags = or_else (c_tags existingCustomer) [];
          newTags = or_else (p_tags p) default_tags;
          combinedTags = (if existingTags \<noteq> [] then existingTags @ '','' @ newTags else newTags)
      in \<lparr>uc_id = c_id existingCustomer,
          uc_email_marketing_consent = email_marketing_consent w 0,
          uc_tags = Some combinedTags\<rparr>)"

definition update_step_2 ::
  "world \<Rightarrow> string \<Rightarrow> string \<Rightarrow> payload \<Rightarrow> string \<Rightarrow> outbound \<Rightarrow> customer \<Rightarrow> outcome" where
  "update_step_2 w shopifyDomain accessToken p email search existingCustomer =
     (let upd = update_request shopifyDomain accessToken (updateData_2 w p existingCustomer)
      in case fetch w upd of
           Rejects err \<Rightarrow> \<lparr>calls = [search, upd], reply = shopify_failed_2 err\<rparr>
         | Resolves updateResponse \<Rightarrow>
             if ok updateResponse then
               \<lparr>calls = [search, upd],
                reply = Json 200 [(''success'', JBool True),
                   (''message'', JStr ''Customer already exists - updated marketing consent''),
                   (''customer_id'', JId (c_id existingCustomer)),
                   (''email'', JStr email),
                   (''existing_customer'', JBool True)]\<rparr>
             else
               (case resp_text updateResponse of
                  Inl err \<Rightarrow> \<lparr>calls = [search, upd], reply = shopify_failed_2 err\<rparr>
                | Inr updateError \<Rightarrow>
                    create_step_2 w shopifyDomain accessToken p email [search, upd] 1))"

definition upsert_2 :: "world \<Rightarrow> string \<Rightarrow> string \<Rightarrow> payload \<Rightarrow> string \<Rightarrow> outcome" where
  "upsert_2 w shopifyDomain accessToken p email =
     (let search = search_request w shopifyDomain accessToken email
      in case fetch w search of
           Rejects err \<Rightarrow> \<lparr>calls = [search], reply = shopify_failed_2 err\<rparr>
         | Resolves searchResponse \<Rightarrow>
             if \<not> ok searchResponse then
               (case resp_text searchResponse of
                  Inl err \<Rightarrow> \<lparr>calls = [search], reply = shopify_failed_2 err\<rparr>
                | Inr errorText \<Rightarrow>
                    \<lparr>calls = [search],
                     reply = Json 500
                       [(''error'', JStr ''Failed to search for existing customer''),
                        (''details'', JStr (''Shopify API Error: '' @
                           show_nat (resp_status searchResponse) @ '' - '' @ errorText))]\<rparr>)
             else
               (case resp_json searchResponse of
                  JsonThrows err \<Rightarrow> \<lparr>calls = [search], reply = shopify_failed_2 err\<rparr>
                | JsonNull \<Rightarrow>
                    \<lparr>calls = [search],
                     reply = shopify_failed_2 (type_error w ''searchData.customers'')\<rparr>
                | JsonDoc searchData \<Rightarrow>
                    (case doc_customers searchData of
                       None \<Rightarrow> create_step_2 w shopifyDomain accessToken p email [search] 0
                     | Some [] \<Rightarrow> create_step_2 w shopifyDomain accessToken p email [search] 0
                     | Some (existingCustomer # _) \<Rightarrow>
                         update_step_2 w shopifyDomain accessToken p email search
                           existingCustomer)))"

text \<open>From the destructuring of the parsed body to the search.\<close>

definition process_2 :: "world \<Rightarrow> env \<Rightarrow> payload \<Rightarrow> outcome" where
  "process_2 w e parsedBody =
     (if \<not> truthy (p_email parsedBody) then
        no_call (Json 400 [(''error'', JStr ''Email is required''),
                           (''received'', JObj parsedBody)])
      else let email = tmpl (p_email parsedBody) in
        if \<not> rx_test emailRegex email then
          no_call (Json 400 [(''error'', JStr ''Invalid email format''),
                             (''email'', JStr email)])
        else if \<not> truthy (SHOPIFY_SHOP_DOMAIN e) \<or> \<not> truthy (SHOPIFY_ACCESS_TOKEN e) then
          no_call (Json 500 [(''error'', JStr ''Webhook configuration error''),
             (''details'', JStr ''Missing Shopify credentials in environment variables'')])
        else upsert_2 w (tmpl (SHOPIFY_SHOP_DOMAIN e)) (tmpl (SHOPIFY_ACCESS_TOKEN e))
               parsedBody email)"

definition webhook_handler_2 :: "world \<Rightarrow> env \<Rightarrow> request \<Rightarrow> outcome" where
  "webhook_handler_2 w e req =
     (if req_method req = ''OPTIONS'' then no_call (End 200)
      else if req_method req \<noteq> ''POST'' then
        no_call (Json 405 [(''error'', JStr ''Method not allowed''), (''allowed'', JStr ''POST'')])
      else
        (case parse_body_2 w (req_body req) of
           Inl r \<Rightarrow> no_call r
         | Inr JNull \<Rightarrow> no_call (internal_error_2 e (type_error w ''parsedBody''))
         | Inr (JOther v) \<Rightarrow>
             no_call (Json 400 [(''error'', JStr ''Email is required''),
                                (''received'', JRaw v)])
         | Inr (JObject parsedBody) \<Rightarrow> process_2 w e parsedBody))"


section \<open>The handler of src/unnamed/part_000\<close>

text \<open>Its single \<^verbatim>\<open>catch\<close>.\<close>

definition internal_error_000 :: "env \<Rightarrow> js_error \<Rightarrow> reply" where
  "internal_error_000 e err =
     Json 500 [(''success'', JBool False),
               (''error'', JStr ''Internal server error''),
               (''details'', JStr (message err)),
               (''stack'', stack_field e err)]"

definition customerData_000 :: "world \<Rightarrow> payload \<Rightarrow> string \<Rightarrow> nat \<Rightarrow> create_customer" where
  "customerData_000 w p email k =
     \<lparr>cc_email = email,
      cc_email_marketing_consent = email_marketing_consent w k,
      cc_tags = ''newsletter,discount-popup,popup-subscriber'',
      cc_note = ''Customer created via discount popup. Source: '' @
        or_else (p_source p) ''popup'' @ ''. Discount: '' @
        or_else (p_discount_code p) ''WELCOME10'' @ ''. Created: '' @ toISOString w (k + 1),
      cc_metafields =
        [\<lparr>mf_namespace = ''popup'', mf_key = ''source'',
          mf_value = Some (or_else (p_source p) ''discount_popup''),
          mf_type = ''single_line_text_field''\<rparr>,
         \<lparr>mf_namespace = ''popup'', mf_key = ''discount_code'',
          mf_value = Some (or_else (p_discount_code p) ''WELCOME10''),
          mf_type = ''single_line_text_field''\<rparr>]\<rparr>"

definition create_reply_000 :: "world \<Rightarrow> env \<Rightarrow> fetch_result \<Rightarrow> reply" where
  "create_reply_000 w e r =
     (case r of
        Rejects err \<Rightarrow> internal_error_000 e err
      | Resolves createResponse \<Rightarrow>
          if ok createResponse then
            (case resp_json createResponse of
               JsonThrows err \<Rightarrow> internal_error_000 e err
             | JsonNull \<Rightarrow> internal_error_000 e (type_error w ''result.customer'')
             | JsonDoc result \<Rightarrow>
                 (case doc_customer result of
                    None \<Rightarrow> internal_error_000 e (type_error w ''result.customer.id'')
                  | Some c \<Rightarrow>
                      Json 200 [(''success'', JBool True),
                                (''message'', JStr ''Customer created successfully''),
                                (''customer_id'', JId (c_id c)),
                                (''email'', JStr (c_email c)),
                                (''existing_customer'', JBool False)]))
          else
            (case resp_text createResponse of
               Inl err \<Rightarrow> internal_error_000 e err
             | Inr createError \<Rightarrow>
                 Json 500 [(''success'', JBool False),
                           (''error'', JStr ''Failed to create customer''),
                           (''details'', JStr (''Shopify API Error: '' @
                              show_nat (resp_status createResponse)))]))"

definition create_step_000 ::
  "world \<Rightarrow> env \<Rightarrow> string \<Rightarrow> string \<Rightarrow> payload \<Rightarrow> string \<Rightarrow> outbound list \<Rightarrow> nat \<Rightarrow> outcome"
  where
  "create_step_000 w e shopifyDomain accessToken p email done k =
     (let cr = create_request shopifyDomain accessToken (customerData_000 w p email k)
      in \<lparr>calls = done @ [cr], reply = create_reply_000 w e (fetch w cr)\<rparr>)"

definition updateData_000 :: "world \<Rightarrow> customer \<Rightarrow> update_customer" where
  "updateData_000 w existingCustomer =
     \<lparr>uc_id = c_id existingCustomer,
      uc_email_marketing_consent = email_marketing_consent w 0,
      uc_tags = Some (if truthy (c_tags existingCustomer)
                      then tmpl (c_tags existingCustomer) @
                           '',newsletter,discount-popup,popup-subscriber''
                      else ''newsletter,discount-popup,popup-subscriber'')\<rparr>"

definition update_step_000 ::
  "world \<Rightarrow> env \<Rightarrow> string \<Rightarrow> string \<Rightarrow> payload \<Rightarrow> string \<Rightarrow> outbound \<Rightarrow> customer \<Rightarrow> outcome"
  where
  "update_step_000 w e shopifyDomain accessToken p email search existingCustomer =
     (let upd = update_request shopifyDomain accessToken (updateData_000 w existingCustomer)
      in case fetch w upd of
           Rejects err \<Rightarrow> \<lparr>calls = [search, upd], reply = internal_error_000 e err\<rparr>
         | Resolves updateResponse \<Rightarrow>
             if ok updateResponse then
               (case resp_json updateResponse of
                  JsonThrows err \<Rightarrow> \<lparr>calls = [search, upd], reply = internal_error_000 e err\<rparr>
                | _ \<Rightarrow>
                  \<lparr>calls = [search, upd],
                   reply = Json 200 [(''success'', JBool True),
                      (''message'', JStr ''Existing customer updated with marketing consent''),
                      (''customer_id'', JId (c_id existingCustomer)),
                      (''email'', JStr email),
                      (''existing_customer'', JBool True)]\<rparr>)
             else
               (case resp_text updateResponse of
                  Inl err \<Rightarrow> \<lparr>calls = [search, upd], reply = internal_error_000 e err\<rparr>
                | Inr updateError \<Rightarrow>
                    create_step_000 w e shopifyDomain accessToken p email [search, upd] 1))"

definition upsert_000 :: "world \<Rightarrow> env \<Rightarrow> string \<Rightarrow> string \<Rightarrow> payload \<Rightarrow> string \<Rightarrow> outcome" where
  "upsert_000 w e shopifyDomain accessToken p email =
     (let search = search_request w shopifyDomain accessToken email
      in case fetch w search of
           Rejects err \<Rightarrow> \<lparr>calls = [search], reply = internal_error_000 e err\<rparr>
         | Resolves searchResponse \<Rightarrow>
             if \<not> ok searchResponse then
               (case resp_text searchResponse of
                  Inl err \<Rightarrow> \<lparr>calls = [search], reply = internal_error_000 e err\<rparr>
                | Inr errorText \<Rightarrow>
                    \<lparr>calls = [search],
                     reply = Json 500 [(''success'', JBool False),
                        (''error'', JStr ''Failed to search customers''),
                        (''details'', JStr (''Shopify API Error: '' @
                           show_nat (resp_status searchResponse)))]\<rparr>)
             else
               (case resp_json searchResponse of
                  JsonThrows err \<Rightarrow> \<lparr>calls = [search], reply = internal_error_000 e err\<rparr>
                | JsonNull \<Rightarrow>
                    \<lparr>calls = [search],
                     reply = internal_error_000 e (type_error w ''searchData.customers'')\<rparr>
                | JsonDoc searchData \<Rightarrow>
                    (case doc_customers searchData of
                       None \<Rightarrow> create_step_000 w e shopifyDomain accessToken p email [search] 0
                     | Some [] \<Rightarrow>
                         create_step_000 w e shopifyDomain accessToken p email [search] 0
                     | Some (existingCustomer # _) \<Rightarrow>
                         update_step_000 w e shopifyDomain accessToken p email search
                           existingCustomer)))"

definition process_000 :: "world \<Rightarrow> env \<Rightarrow> payload \<Rightarrow> outcome" where
  "process_000 w e requestBody =
     (if \<not> truthy (p_email requestBody) then
        no_call (Json 400 [(''success'', JBool False),
                           (''error'', JStr ''Email is required''),
                           (''received'', JObj requestBody)])
      else let email = tmpl (p_email requestBody) in
        if \<not> rx_test emailRegex email then
          no_call (Json 400 [(''success'', JBool False),
                             (''error'', JStr ''Invalid email format''),
                             (''email'', JStr email)])
        else if \<not> truthy (SHOPIFY_SHOP_DOMAIN e) \<or> \<not> truthy (SHOPIFY_ACCESS_TOKEN e) then
          no_call (Json 500 [(''success'', JBool False),
             (''error'', JStr ''Server configuration error''),
             (''details'', JStr ''Missing required environment variables'')])
        else upsert_000 w e (tmpl (SHOPIFY_SHOP_DOMAIN e)) (tmpl (SHOPIFY_ACCESS_TOKEN e))
               requestBody email)"

definition part_000_handler :: "world \<Rightarrow> env \<Rightarrow> request \<Rightarrow> outcome" where
  "part_000_handler w e req =
     (if req_method req = ''OPTIONS'' then no_call (End 200)
      else if req_method req \<noteq> ''POST'' then
        no_call (Json 405 [(''error'', JStr ''Method not allowed''), (''allowed'', JStr ''POST''),
                           (''received'', JStr (req_method req))])
      else
        (case req_body req of
           BodyString s \<Rightarrow>
             (case JSON_parse w s of
                Inl parseError \<Rightarrow>
                  no_call (Json 400 [(''success'', JBool False),
                                     (''error'', JStr ''Invalid JSON in request body''),
                                     (''details'', JStr (message parseError))])
              | Inr JNull \<Rightarrow> no_call (internal_error_000 e (type_error w ''requestBody''))
              | Inr (JOther v) \<Rightarrow>
                  no_call (Json 400 [(''success'', JBool False),
                                     (''error'', JStr ''Email is required''),
                                     (''received'', JRaw v)])
              | Inr (JObject requestBody) \<Rightarrow> process_000 w e requestBody)
         | BodyObject requestBody \<Rightarrow> process_000 w e requestBody
         | BodyOther ty str \<Rightarrow>
             no_call (Json 400 [(''success'', JBool False),
                                (''error'', JStr ''Email is required''),
                                (''received'', JRaw str)])
         | BodyNull \<Rightarrow> no_call (internal_error_000 e (type_error w ''requestBody''))
         | BodyUndefined \<Rightarrow> no_call (internal_error_000 e (type_error w ''requestBody''))))"

section \<open>The handler of src/unnamed/part_001\<close>

definition internal_error_001 :: "js_error \<Rightarrow> reply" where
  "internal_error_001 err =
     Json 500 [(''error'', JStr ''Internal server error''),
               (''details'', JStr (message err))]"

definition customerData_001 :: "world \<Rightarrow> payload \<Rightarrow> string \<Rightarrow> nat \<Rightarrow> create_customer" where
  "customerData_001 w p email k =
     \<lparr>cc_email = email,
      cc_email_marketing_consent = email_marketing_consent w k,
      cc_tags = or_else (p_tags p) ''newsletter,discount-popup'',
      cc_note = ''Customer created via discount popup. Source: '' @
        tmpl (p_source p) @ ''. Discount code: '' @
        tmpl (p_discount_code p) @ ''. Created: '' @ toISOString w (k + 1),
      cc_metafields =
        [\<lparr>mf_namespace = ''discount_popup'', mf_key = ''source'',
          mf_value = p_source p,
          mf_type = ''single_line_text_field''\<rparr>,
         \<lparr>mf_namespace = ''discount_popup'', mf_key = ''discount_code'',
          mf_value = p_discount_code p,
          mf_type = ''single_line_text_field''\<rparr>]\<rparr>"

definition gid :: "customer \<Rightarrow> jv" where
  "gid c = (case c_admin_graphql_api_id c of None \<Rightarrow> JUndefined | Some g \<Rightarrow> JStr g)"

definition create_reply_001 :: "world \<Rightarrow> fetch_result \<Rightarrow> reply" where
  "create_reply_001 w r =
     (case r of
        Rejects err \<Rightarrow> internal_error_001 err
      | Resolves createResponse \<Rightarrow>
          (case resp_text createResponse of
             Inl err \<Rightarrow> internal_error_001 err
           | Inr responseText \<Rightarrow>
               if ok createResponse then
                 (case resp_json createResponse of
                    JsonThrows err \<Rightarrow> internal_error_001 err
                  | JsonNull \<Rightarrow> internal_error_001 (type_error w ''result.customer'')
                  | JsonDoc result \<Rightarrow>
                      (case doc_customer result of
                         None \<Rightarrow>
                           internal_error_001
                             (type_error w ''result.customer.admin_graphql_api_id'')
                       | Some c \<Rightarrow>
                           Json 200 [(''success'', JBool True),
                                     (''message'', JStr ''Customer created successfully''),
                                     (''customer_id'', gid c),
                                     (''email'', JStr (c_email c))]))
               else
                 Json 500 [(''error'', JStr ''Failed to create customer''),
                           (''details'', JStr (''Shopify API Error: '' @
                              show_nat (resp_status createResponse) @ '' - '' @
                              responseText))]))"

definition create_step_001 ::
  "world \<Rightarrow> string \<Rightarrow> string \<Rightarrow> payload \<Rightarrow> string \<Rightarrow> outbound list \<Rightarrow> nat \<Rightarrow> outcome" where
  "create_step_001 w shopifyDomain accessToken p email done k =
     (let cr = create_request shopifyDomain accessToken (customerData_001 w p email k)
      in \<lparr>calls = done @ [cr], reply = create_reply_001 w (fetch w cr)\<rparr>)"

definition updateData_001 :: "world \<Rightarrow> payload \<Rightarrow> customer \<Rightarrow> update_customer" where
  "updateData_001 w p existingCustomer =
     \<lparr>uc_id = c_id existingCustomer,
      uc_email_marketing_consent = email_marketing_consent w 0,
      uc_tags = (if truthy (c_tags existingCustomer)
                 then Some (tmpl (c_tags existingCustomer) @ '','' @ tmpl (p_tags p))
                 else p_tags p)\<rparr>"

definition update_step_001 ::
  "world \<Rightarrow> string \<Rightarrow> string \<Rightarrow> payload \<Rightarrow> string \<Rightarrow> outbound \<Rightarrow> customer \<Rightarrow> outcome" where
  "update_step_001 w shopifyDomain accessToken p email search existingCustomer =
     (let upd = update_request shopifyDomain accessToken (updateData_001 w p existingCustomer)
      in case fetch w upd of
           Rejects err \<Rightarrow> \<lparr>calls = [search, upd], reply = internal_error_001 err\<rparr>
         | Resolves updateResponse \<Rightarrow>
             if ok updateResponse then
               \<lparr>calls = [search, upd],
                reply = Json 200 [(''success'', JBool True),
                   (''message'', JStr ''Customer already exists - updated marketing consent''),
                   (''customer_id'', gid existingCustomer),
                   (''note'', JStr ''Email was already in system'')]\<rparr>
             else create_step_001 w shopifyDomain accessToken p email [search, upd] 1)"

definition upsert_001 :: "world \<Rightarrow> string \<Rightarrow> string \<Rightarrow> payload \<Rightarrow> string \<Rightarrow> outcome" where
  "upsert_001 w shopifyDomain accessToken p email =
     (let search = search_request w shopifyDomain accessToken email
      in case fetch w search of
           Rejects err \<Rightarrow> \<lparr>calls = [search], reply = internal_error_001 err\<rparr>
         | Resolves searchResponse \<Rightarrow>
             if \<not> ok searchResponse then
               (case resp_text searchResponse of
                  Inl err \<Rightarrow> \<lparr>calls = [search], reply = internal_error_001 err\<rparr>
                | Inr errorText \<Rightarrow>
                    \<lparr>calls = [search],
                     reply = Json 500
                       [(''error'', JStr ''Failed to search for existing customer''),
                        (''details'', JStr (''Shopify API Error: '' @
                           show_nat (resp_status searchResponse) @ '' - '' @ errorText))]\<rparr>)
             else
               (case resp_json searchResponse of
                  JsonThrows err \<Rightarrow> \<lparr>calls = [search], reply = internal_error_001 err\<rparr>
                | JsonNull \<Rightarrow>
                    \<lparr>calls = [search],
                     reply = internal_error_001 (type_error w ''searchData.customers'')\<rparr>
                | JsonDoc searchData \<Rightarrow>
                    (case doc_customers searchData of
                       None \<Rightarrow> create_step_001 w shopifyDomain accessToken p email [search] 0
                     | Some [] \<Rightarrow> create_step_001 w shopifyDomain accessToken p email [search] 0
                     | Some (existingCustomer # _) \<Rightarrow>
                         update_step_001 w shopifyDomain accessToken p email search
                           existingCustomer)))"

definition process_001 :: "world \<Rightarrow> env \<Rightarrow> payload \<Rightarrow> outcome" where
  "process_001 w e p =
     (if \<not> truthy (p_email p) then
        no_call (Json 400 [(''error'', JStr ''Email is required'')])
      else if \<not> truthy (SHOPIFY_SHOP_DOMAIN e) \<or> \<not> truthy (SHOPIFY_ACCESS_TOKEN e) then
        no_call (Json 500 [(''error'', JStr ''Webhook configuration error''),
           (''details'', JStr ''Missing Shopify credentials in environment variables'')])
      else upsert_001 w (tmpl (SHOPIFY_SHOP_DOMAIN e)) (tmpl (SHOPIFY_ACCESS_TOKEN e))
             p (tmpl (p_email p)))"

text \<open>
  Destructuring \<^verbatim>\<open>req.body\<close> as it is: \<^verbatim>\<open>null\<close> and \<^verbatim>\<open>undefined\<close> throw; a
  string, a number and a boolean have none of the fields.
\<close>

definition destructure :: "req_body \<Rightarrow> payload option" where
  "destructure b =
     (case b of
        BodyUndefined \<Rightarrow> None
      | BodyNull \<Rightarrow> None
      | BodyString s \<Rightarrow>
          Some \<lparr>p_email = None, p_source = None, p_discount_code = None, p_tags = None\<rparr>
      | BodyOther ty str \<Rightarrow>
          Some \<lparr>p_email = None, p_source = None, p_discount_code = None, p_tags = None\<rparr>
      | BodyObject p \<Rightarrow> Some p)"

definition part_001_handler :: "world \<Rightarrow> env \<Rightarrow> request \<Rightarrow> outcome" where
  "part_001_handler w e req =
     (if req_method req = ''OPTIONS'' then no_call (End 200)
      else if req_method req \<noteq> ''POST'' then
        no_call (Json 405 [(''error'', JStr ''Method not allowed'')])
      else
        (case destructure (req_body req) of
           None \<Rightarrow> no_call (internal_error_001 (type_error w ''req.body''))
         | Some p \<Rightarrow> process_001 w e p))"

section \<open>The create-only handler of src/api/webhook.js (its first \<^verbatim>\<open>handler\<close>)\<close>

text \<open>
  \<^verbatim>\<open>createShopifyCustomer\<close>: the call it issues, and either the error it throws or
  \<^verbatim>\<open>result.customer\<close>.
\<close>

definition legacy_request :: "string \<Rightarrow> string \<Rightarrow> legacy_customer \<Rightarrow> outbound" where
  "legacy_request shopDomain accessToken customerData =
     \<lparr>ob_method = ''POST'', ob_url = create_url shopDomain,
      ob_token = accessToken, ob_body = LegacyData customerData\<rparr>"

definition createShopifyCustomer ::
  "world \<Rightarrow> legacy_customer \<Rightarrow> string \<Rightarrow> string \<Rightarrow> js_error + customer option" where
  "createShopifyCustomer w customerData accessToken shopDomain =
     (case fetch w (legacy_request shopDomain accessToken customerData) of
        Rejects err \<Rightarrow> Inl err
      | Resolves response \<Rightarrow>
          if \<not> ok response then
            (case resp_text response of
               Inl err \<Rightarrow> Inl err
             | Inr errorData \<Rightarrow>
                 (let m = ''Shopify API Error: '' @ show_nat (resp_status response) @ '' - '' @
                          errorData
                  in Inl (JsError m (new_stack w m))))
          else
            (case resp_json response of
               JsonThrows err \<Rightarrow> Inl err
             | JsonNull \<Rightarrow> Inl (type_error w ''result.customer'')
             | JsonDoc result \<Rightarrow> Inr (doc_customer result)))"

definition customerData_1 :: "world \<Rightarrow> payload \<Rightarrow> string \<Rightarrow> legacy_customer" where
  "customerData_1 w p email =
     \<lparr>lc_email = email,
      lc_accepts_marketing = True,
      lc_tags = or_else (p_tags p) ''newsletter,discount-popup,popup-subscriber'',
      lc_note = ''Subscribed via discount popup ('' @ or_else (p_source p) ''unknown'' @
        '') on '' @ toLocaleDateString w 0 @ ''. Interested in discount: '' @
        or_else (p_discount_code p) ''N/A'',
      lc_marketing_opt_in_level = ''confirmed_opt_in'',
      lc_verified_email = True\<rparr>"

text \<open>The \<^verbatim>\<open>catch\<close> of the handler.\<close>

definition catch_1 :: "js_error \<Rightarrow> reply" where
  "catch_1 error =
     (if str_includes (message error) ''422'' then
        Json 200 [(''success'', JBool True),
                  (''message'', JStr ''Customer already exists - updated marketing consent''),
                  (''note'', JStr ''Email was already in system'')]
      else
        Json 500 [(''error'', JStr ''Failed to create customer''),
                  (''details'', JStr (message error))])"

definition process_1 :: "world \<Rightarrow> env \<Rightarrow> payload \<Rightarrow> outcome" where
  "process_1 w e p =
     (if \<not> truthy (p_email p) \<or> \<not> isValidEmail (tmpl (p_email p)) then
        no_call (Json 400 [(''error'', JStr ''Invalid email address'')])
      else if \<not> truthy (SHOPIFY_ACCESS_TOKEN e) \<or> \<not> truthy (SHOPIFY_SHOP_DOMAIN e) then
        no_call (Json 500 [(''error'', JStr ''Missing Shopify configuration'')])
      else
        (let email = tmpl (p_email p);
             accessToken = tmpl (SHOPIFY_ACCESS_TOKEN e);
             shopDomain = tmpl (SHOPIFY_SHOP_DOMAIN e);
             customerData = customerData_1 w p email;
             issued = [legacy_request shopDomain accessToken customerData]
         in case createShopifyCustomer w customerData accessToken shopDomain of
              Inl error \<Rightarrow> \<lparr>calls = issued, reply = catch_1 error\<rparr>
            | Inr None \<Rightarrow> \<lparr>calls = issued, reply = catch_1 (type_error w ''customer.id'')\<rparr>
            | Inr (Some customer) \<Rightarrow>
                \<lparr>calls = issued,
                 reply = Json 200 [(''success'', JBool True),
                                   (''customer_id'', JId (c_id customer)),
                                   (''email'', JStr (c_email customer)),
                                   (''message'', JStr ''Customer created successfully'')]\<rparr>))"

definition webhook_handler_1 :: "world \<Rightarrow> env \<Rightarrow> request \<Rightarrow> outcome" where
  "webhook_handler_1 w e req =
     (if req_method req = ''OPTIONS'' then no_call (End 200)
      else if req_method req \<noteq> ''POST'' then
        no_call (Json 405 [(''error'', JStr ''Method not allowed'')])
      else
        (case destructure (req_body req) of
           None \<Rightarrow> no_call (catch_1 (type_error w ''req.body''))
         | Some p \<Rightarrow> process_1 w e p))"

section \<open>Concrete platforms, requests and customers\<close>

text \<open>
  A platform that answers by the method of the call (the handlers issue at most one
  call of each method in an invocation), a clock that shows the number of its reading,
  and \<^verbatim>\<open>encodeURIComponent\<close> as it acts on the characters of the sample addresses.
\<close>

definition sample_platform :: "fetch_result \<Rightarrow> fetch_result \<Rightarrow> fetch_result \<Rightarrow> world" where
  "sample_platform onSearch onUpdate onCreate =
     \<lparr>fetch = (\<lambda>ob. if ob_method ob = ''GET'' then onSearch
                     else if ob_method ob = ''PUT'' then onUpdate else onCreate),
      toISOString = (\<lambda>k. ''2024-05-01T10:00:00.00'' @ show_nat k @ ''Z''),
      toLocaleDateString = (\<lambda>k. ''5/1/2024''),
      JSON_parse = (\<lambda>s. Inl (JsError ''Unexpected token'' [])),
      encodeURIComponent = (\<lambda>s. concat (map (\<lambda>c. if c = CHR ''@'' then ''%40'' else [c]) s)),
      type_error = (\<lambda>site. JsError (''Cannot read properties of undefined: '' @ site) []),
      new_stack = (\<lambda>m. [])\<rparr>"

definition answers :: "nat \<Rightarrow> string \<Rightarrow> json_doc \<Rightarrow> fetch_result" where
  "answers st txt doc =
     Resolves \<lparr>resp_status = st, resp_body = Readable txt (JsonDoc doc)\<rparr>"

text \<open>A response whose body cannot be read: the connection ends before it arrives.\<close>

definition cut_off :: "nat \<Rightarrow> fetch_result" where
  "cut_off st = Resolves \<lparr>resp_status = st, resp_body = Unreadable (JsError ''terminated'' [])\<rparr>"

definition gold_customer :: customer where
  "gold_customer =
     \<lparr>c_id = ''7'', c_email = ''a@b.com'', c_tags = Some ''gold'',
      c_admin_graphql_api_id = Some ''gid://shopify/Customer/7''\<rparr>"

definition other_customer :: customer where
  "other_customer =
     \<lparr>c_id = ''9'', c_email = ''a@b.com'', c_tags = Some ''silver'',
      c_admin_graphql_api_id = Some ''gid://shopify/Customer/9''\<rparr>"

definition new_customer :: customer where
  "new_customer =
     \<lparr>c_id = ''11'', c_email = ''a@b.com'', c_tags = Some ''newsletter'',
      c_admin_graphql_api_id = Some ''gid://shopify/Customer/11''\<rparr>"

text \<open>
  Two customers whose ids the platform sends as 9007199254740993 and 9007199254740992:
  \<^verbatim>\<open>response.json()\<close> reads both as 9007199254740992.
\<close>

definition first_twin :: customer where
  "first_twin =
     \<lparr>c_id = ''9007199254740992'', c_email = ''a@b.com'', c_tags = Some ''gold'',
      c_admin_graphql_api_id = Some ''gid://shopify/Customer/9007199254740993''\<rparr>"

definition second_twin :: customer where
  "second_twin =
     \<lparr>c_id = ''9007199254740992'', c_email = ''a@b.com'', c_tags = Some ''silver'',
      c_admin_graphql_api_id = Some ''gid://shopify/Customer/9007199254740992''\<rparr>"

definition found :: "customer list \<Rightarrow> fetch_result" where
  "found cs = answers 200 ''(customers)'' \<lparr>doc_customers = Some cs, doc_customer = None\<rparr>"

definition saved :: "nat \<Rightarrow> customer \<Rightarrow> fetch_result" where
  "saved st c = answers st ''(customer)'' \<lparr>doc_customers = None, doc_customer = Some c\<rparr>"

definition refused :: "nat \<Rightarrow> fetch_result" where
  "refused st = answers st ''(errors)'' \<lparr>doc_customers = None, doc_customer = None\<rparr>"

definition world_new :: world where
  "world_new = sample_platform (found []) (refused 404) (saved 201 new_customer)"

definition world_found :: world where
  "world_found =
     sample_platform (found [gold_customer, other_customer]) (saved 200 gold_customer)
       (saved 201 new_customer)"

definition world_twins :: world where
  "world_twins =
     sample_platform (found [first_twin, second_twin]) (saved 200 first_twin)
       (saved 201 new_customer)"

definition world_update_refused :: world where
  "world_update_refused =
     sample_platform (found [gold_customer, other_customer]) (refused 500)
       (saved 201 new_customer)"

definition world_search_refused :: world where
  "world_search_refused = sample_platform (refused 500) (refused 500) (refused 500)"

definition world_search_cut_off :: world where
  "world_search_cut_off = sample_platform (cut_off 500) (refused 500) (refused 500)"

definition world_update_cut_off :: world where
  "world_update_cut_off =
     sample_platform (found [gold_customer, other_customer]) (cut_off 500)
       (saved 201 new_customer)"

definition world_duplicate :: world where
  "world_duplicate = sample_platform (found []) (refused 404) (refused 422)"

definition sample_env :: env where
  "sample_env =
     \<lparr>SHOPIFY_SHOP_DOMAIN = Some ''shop.example'', SHOPIFY_ACCESS_TOKEN = Some ''token'',
      NODE_ENV = None\<rparr>"

definition post :: "string \<Rightarrow> string option \<Rightarrow> request" where
  "post email tags =
     \<lparr>req_method = ''POST'',
      req_body = BodyObject \<lparr>p_email = Some email, p_source = None, p_discount_code = None,
                             p_tags = tags\<rparr>\<rparr>"


section \<open>Helper facts\<close>

lemma show_nat_small [simp]: "show_nat 0 = ''0''" "show_nat 1 = ''1''" "show_nat 2 = ''2''"
  "show_nat 500 = ''500''" "show_nat 422 = ''422''"
  by code_simp+

lemma truthy_Some: "truthy v \<Longrightarrow> v = Some (tmpl v) \<and> tmpl v \<noteq> []"
  by (cases v) (simp_all add: truthy_def tmpl_def)

lemma calls_no_call [simp]: "calls (no_call r) = []" "reply (no_call r) = r"
  by (simp_all add: no_call_def)

lemmas shared_defs =
  truthy_def or_else_def tmpl_def is_space_def emailRegex_def isValidEmail_def ok_def
  resp_text_def resp_json_def
  default_tags_def search_request_def update_url_def create_url_def
  email_marketing_consent_def update_request_def create_request_def no_call_def stack_field_def

lemmas defs_2 =
  parse_body_2_def shopify_failed_2_def internal_error_2_def customerData_2_def
  create_reply_2_def create_step_2_def updateData_2_def update_step_2_def upsert_2_def
  process_2_def webhook_handler_2_def



lemmas defs_1 =
  legacy_request_def createShopifyCustomer_def customerData_1_def catch_1_def process_1_def
  destructure_def webhook_handler_1_def

lemmas sample_defs =
  sample_platform_def answers_def gold_customer_def other_customer_def new_customer_def
  found_def saved_def refused_def world_new_def world_found_def world_twins_def first_twin_def second_twin_def
  world_update_refused_def
  world_search_refused_def world_search_cut_off_def world_update_cut_off_def
  cut_off_def world_duplicate_def sample_env_def post_def

subsection \<open>The search is the first call, and the only way to any call\<close>

lemma calls_upsert_2:
  "\<exists>rest. calls (upsert_2 w d t p em) = search_request w d t em # rest"
  by (simp add: upsert_2_def update_step_2_def create_step_2_def Let_def
      split: fetch_result.split json_result.split option.split list.split sum.split)

lemma calls_upsert_000:
  "\<exists>rest. calls (upsert_000 w e d t p em) = search_request w d t em # rest"
  by (simp add: upsert_000_def update_step_000_def create_step_000_def Let_def
      split: fetch_result.split json_result.split option.split list.split sum.split)

lemma calls_upsert_001:
  "\<exists>rest. calls (upsert_001 w d t p em) = search_request w d t em # rest"
  by (simp add: upsert_001_def update_step_001_def create_step_001_def Let_def
      split: fetch_result.split json_result.split option.split list.split sum.split)

lemma process_2_issues:
  "calls (process_2 w e p) \<noteq> [] \<Longrightarrow>
   process_2 w e p = upsert_2 w (tmpl (SHOPIFY_SHOP_DOMAIN e)) (tmpl (SHOPIFY_ACCESS_TOKEN e)) p (tmpl (p_email p))"
  by (simp add: process_2_def Let_def split: if_splits)

lemma webhook_handler_2_reaches:
  "calls (webhook_handler_2 w e req) \<noteq> [] \<Longrightarrow>
   \<exists>p. webhook_handler_2 w e req = process_2 w e p \<and> (\<forall>q. req_body req = BodyObject q \<longrightarrow> q = p)"
  by (auto simp: webhook_handler_2_def parse_body_2_def split: if_splits sum.splits json_value.splits req_body.splits)

lemma webhook_handler_2_issues:
  assumes "calls (webhook_handler_2 w e req) = s # rest"
  shows "\<exists>p. webhook_handler_2 w e req =
           upsert_2 w (tmpl (SHOPIFY_SHOP_DOMAIN e)) (tmpl (SHOPIFY_ACCESS_TOKEN e)) p (tmpl (p_email p)) \<and>
         s = search_request w (tmpl (SHOPIFY_SHOP_DOMAIN e)) (tmpl (SHOPIFY_ACCESS_TOKEN e)) (tmpl (p_email p)) \<and>
         (\<forall>q. req_body req = BodyObject q \<longrightarrow> q = p)"
proof -
  from assms have ne: "calls (webhook_handler_2 w e req) \<noteq> []" by simp
  from webhook_handler_2_reaches [OF ne] obtain p where
    r: "webhook_handler_2 w e req = process_2 w e p"
    and q: "\<forall>q. req_body req = BodyObject q \<longrightarrow> q = p"
    by blast
  from ne r have u: "webhook_handler_2 w e req =
      upsert_2 w (tmpl (SHOPIFY_SHOP_DOMAIN e)) (tmpl (SHOPIFY_ACCESS_TOKEN e)) p (tmpl (p_email p))"
    using process_2_issues [of w e p] by simp
  obtain more where "calls (upsert_2 w (tmpl (SHOPIFY_SHOP_DOMAIN e)) (tmpl (SHOPIFY_ACCESS_TOKEN e)) p (tmpl (p_email p))) =
      search_request w (tmpl (SHOPIFY_SHOP_DOMAIN e)) (tmpl (SHOPIFY_ACCESS_TOKEN e)) (tmpl (p_email p)) # more"
    using calls_upsert_2 by blast
  with assms u have "s = search_request w (tmpl (SHOPIFY_SHOP_DOMAIN e)) (tmpl (SHOPIFY_ACCESS_TOKEN e)) (tmpl (p_email p))"
    by simp
  with u q show ?thesis by blast
qed

lemma process_000_issues:
  "calls (process_000 w e p) \<noteq> [] \<Longrightarrow>
   process_000 w e p = upsert_000 w e (tmpl (SHOPIFY_SHOP_DOMAIN e)) (tmpl (SHOPIFY_ACCESS_TOKEN e)) p (tmpl (p_email p))"
  by (simp add: process_000_def Let_def split: if_splits)

lemma part_000_handler_reaches:
  "calls (part_000_handler w e req) \<noteq> [] \<Longrightarrow>
   \<exists>p. part_000_handler w e req = process_000 w e p \<and> (\<forall>q. req_body req = BodyObject q \<longrightarrow> q = p)"
  by (auto simp: part_000_handler_def split: if_splits sum.splits json_value.splits req_body.splits)

lemma part_000_handler_issues:
  assumes "calls (part_000_handler w e req) = s # rest"
  shows "\<exists>p. part_000_handler w e req =
           upsert_000 w e (tmpl (SHOPIFY_SHOP_DOMAIN e)) (tmpl (SHOPIFY_ACCESS_TOKEN e)) p (tmpl (p_email p)) \<and>
         s = search_request w (tmpl (SHOPIFY_SHOP_DOMAIN e)) (tmpl (SHOPIFY_ACCESS_TOKEN e)) (tmpl (p_email p)) \<and>
         (\<forall>q. req_body req = BodyObject q \<longrightarrow> q = p)"
proof -
  from assms have ne: "calls (part_000_handler w e req) \<noteq> []" by simp
  from part_000_handler_reaches [OF ne] obtain p where
    r: "part_000_handler w e req = process_000 w e p"
    and q: "\<forall>q. req_body req = BodyObject q \<longrightarrow> q = p"
    by blast
  from ne r have u: "part_000_handler w e req =
      upsert_000 w e (tmpl (SHOPIFY_SHOP_DOMAIN e)) (tmpl (SHOPIFY_ACCESS_TOKEN e)) p (tmpl (p_email p))"
    using process_000_issues [of w e p] by simp
  obtain more where "calls (upsert_000 w e (tmpl (SHOPIFY_SHOP_DOMAIN e)) (tmpl (SHOPIFY_ACCESS_TOKEN e)) p (tmpl (p_email p))) =
      search_request w (tmpl (SHOPIFY_SHOP_DOMAIN e)) (tmpl (SHOPIFY_ACCESS_TOKEN e)) (tmpl (p_email p)) # more"
    using calls_upsert_000 by blast
  with assms u have "s = search_request w (tmpl (SHOPIFY_SHOP_DOMAIN e)) (tmpl (SHOPIFY_ACCESS_TOKEN e)) (tmpl (p_email p))"
    by simp
  with u q show ?thesis by blast
qed

lemma process_001_issues:
  "calls (process_001 w e p) \<noteq> [] \<Longrightarrow>
   process_001 w e p = upsert_001 w (tmpl (SHOPIFY_SHOP_DOMAIN e)) (tmpl (SHOPIFY_ACCESS_TOKEN e)) p (tmpl (p_email p))"
  by (simp add: process_001_def Let_def split: if_splits)

lemma part_001_handler_reaches:
  "calls (part_001_handler w e req) \<noteq> [] \<Longrightarrow>
   \<exists>p. part_001_handler w e req = process_001 w e p \<and> (\<forall>q. req_body req = BodyObject q \<longrightarrow> q = p)"
  by (auto simp: part_001_handler_def destructure_def split: if_splits option.splits req_body.splits)

lemma part_001_handler_issues:
  assumes "calls (part_001_handler w e req) = s # rest"
  shows "\<exists>p. part_001_handler w e req =
           upsert_001 w (tmpl (SHOPIFY_SHOP_DOMAIN e)) (tmpl (SHOPIFY_ACCESS_TOKEN e)) p (tmpl (p_email p)) \<and>
         s = search_request w (tmpl (SHOPIFY_SHOP_DOMAIN e)) (tmpl (SHOPIFY_ACCESS_TOKEN e)) (tmpl (p_email p)) \<and>
         (\<forall>q. req_body req = BodyObject q \<longrightarrow> q = p)"
proof -
  from assms have ne: "calls (part_001_handler w e req) \<noteq> []" by simp
  from part_001_handler_reaches [OF ne] obtain p where
    r: "part_001_handler w e req = process_001 w e p"
    and q: "\<forall>q. req_body req = BodyObject q \<longrightarrow> q = p"
    by blast
  from ne r have u: "part_001_handler w e req =
      upsert_001 w (tmpl (SHOPIFY_SHOP_DOMAIN e)) (tmpl (SHOPIFY_ACCESS_TOKEN e)) p (tmpl (p_email p))"
    using process_001_issues [of w e p] by simp
  obtain more where "calls (upsert_001 w (tmpl (SHOPIFY_SHOP_DOMAIN e)) (tmpl (SHOPIFY_ACCESS_TOKEN e)) p (tmpl (p_email p))) =
      search_request w (tmpl (SHOPIFY_SHOP_DOMAIN e)) (tmpl (SHOPIFY_ACCESS_TOKEN e)) (tmpl (p_email p)) # more"
    using calls_upsert_001 by blast
  with assms u have "s = search_request w (tmpl (SHOPIFY_SHOP_DOMAIN e)) (tmpl (SHOPIFY_ACCESS_TOKEN e)) (tmpl (p_email p))"
    by simp
  with u q show ?thesis by blast
qed

subsection \<open>The branches after the search\<close>

lemma upsert_2_not_found:
  "fetch w (search_request w d t em) = Resolves sr \<Longrightarrow> ok sr \<Longrightarrow> resp_json sr = JsonDoc sd \<Longrightarrow>
   doc_customers sd = Some [] \<Longrightarrow>
   upsert_2 w d t p em = create_step_2 w d t p em [search_request w d t em] 0"
  by (simp add: upsert_2_def)

lemma upsert_000_not_found:
  "fetch w (search_request w d t em) = Resolves sr \<Longrightarrow> ok sr \<Longrightarrow> resp_json sr = JsonDoc sd \<Longrightarrow>
   doc_customers sd = Some [] \<Longrightarrow>
   upsert_000 w e d t p em = create_step_000 w e d t p em [search_request w d t em] 0"
  by (simp add: upsert_000_def)

lemma upsert_001_not_found:
  "fetch w (search_request w d t em) = Resolves sr \<Longrightarrow> ok sr \<Longrightarrow> resp_json sr = JsonDoc sd \<Longrightarrow>
   doc_customers sd = Some [] \<Longrightarrow>
   upsert_001 w d t p em = create_step_001 w d t p em [search_request w d t em] 0"
  by (simp add: upsert_001_def)

lemma upsert_2_found:
  "fetch w (search_request w d t em) = Resolves sr \<Longrightarrow> ok sr \<Longrightarrow> resp_json sr = JsonDoc sd \<Longrightarrow>
   doc_customers sd = Some (c0 # cs) \<Longrightarrow>
   upsert_2 w d t p em = update_step_2 w d t p em (search_request w d t em) c0"
  by (simp add: upsert_2_def)

lemma upsert_000_found:
  "fetch w (search_request w d t em) = Resolves sr \<Longrightarrow> ok sr \<Longrightarrow> resp_json sr = JsonDoc sd \<Longrightarrow>
   doc_customers sd = Some (c0 # cs) \<Longrightarrow>
   upsert_000 w e d t p em = update_step_000 w e d t p em (search_request w d t em) c0"
  by (simp add: upsert_000_def)

lemma upsert_001_found:
  "fetch w (search_request w d t em) = Resolves sr \<Longrightarrow> ok sr \<Longrightarrow> resp_json sr = JsonDoc sd \<Longrightarrow>
   doc_customers sd = Some (c0 # cs) \<Longrightarrow>
   upsert_001 w d t p em = update_step_001 w d t p em (search_request w d t em) c0"
  by (simp add: upsert_001_def)

subsection \<open>Runs on the sample platforms\<close>



subsection \<open>Which requests reach the search\<close>

lemma webhook_handler_2_admits:
  assumes "req_method req = ''POST''"
    and "req_body req = BodyObject p \<or>
         (\<exists>s. req_body req = BodyString s \<and> JSON_parse w s = Inr (JObject p))"
    and "p_email p = Some em" "rx_test emailRegex em"
    and "SHOPIFY_SHOP_DOMAIN e = Some d" "d \<noteq> []" "SHOPIFY_ACCESS_TOKEN e = Some t" "t \<noteq> []"
  shows "webhook_handler_2 w e req = upsert_2 w d t p em"
proof -
  from assms(4) have "em \<noteq> []" by (auto simp: emailRegex_def)
  with assms show ?thesis
    by (auto simp: webhook_handler_2_def parse_body_2_def process_2_def truthy_def tmpl_def
        Let_def)
qed

lemma part_000_handler_admits:
  assumes "req_method req = ''POST''"
    and "req_body req = BodyObject p \<or>
         (\<exists>s. req_body req = BodyString s \<and> JSON_parse w s = Inr (JObject p))"
    and "p_email p = Some em" "rx_test emailRegex em"
    and "SHOPIFY_SHOP_DOMAIN e = Some d" "d \<noteq> []" "SHOPIFY_ACCESS_TOKEN e = Some t" "t \<noteq> []"
  shows "part_000_handler w e req = upsert_000 w e d t p em"
proof -
  from assms(4) have "em \<noteq> []" by (auto simp: emailRegex_def)
  with assms show ?thesis
    by (auto simp: part_000_handler_def process_000_def truthy_def tmpl_def Let_def)
qed

lemma part_001_handler_admits:
  assumes "req_method req = ''POST''"
    and "req_body req = BodyObject p"
    and "p_email p = Some em" "em \<noteq> []"
    and "SHOPIFY_SHOP_DOMAIN e = Some d" "d \<noteq> []" "SHOPIFY_ACCESS_TOKEN e = Some t" "t \<noteq> []"
  shows "part_001_handler w e req = upsert_001 w d t p em"
  using assms
  by (simp add: part_001_handler_def destructure_def process_001_def truthy_def tmpl_def)

text \<open>No other request issues a call.\<close>

lemma webhook_handler_2_admits_only:
  assumes "calls (webhook_handler_2 w e req) \<noteq> []"
  shows "\<exists>p em d t. req_method req = ''POST'' \<and>
    (req_body req = BodyObject p \<or>
     (\<exists>s. req_body req = BodyString s \<and> JSON_parse w s = Inr (JObject p))) \<and>
    p_email p = Some em \<and> rx_test emailRegex em \<and>
    SHOPIFY_SHOP_DOMAIN e = Some d \<and> d \<noteq> [] \<and> SHOPIFY_ACCESS_TOKEN e = Some t \<and> t \<noteq> []"
proof -
  from assms have m: "req_method req = ''POST''"
    by (auto simp: webhook_handler_2_def split: if_splits)
  from assms m have b: "\<exists>q. (req_body req = BodyObject q \<or>
     (\<exists>s. req_body req = BodyString s \<and> JSON_parse w s = Inr (JObject q))) \<and>
     calls (process_2 w e q) \<noteq> []"
    by (auto simp: webhook_handler_2_def parse_body_2_def
        split: if_splits sum.splits json_value.splits req_body.splits)
  then obtain q where q: "req_body req = BodyObject q \<or>
     (\<exists>s. req_body req = BodyString s \<and> JSON_parse w s = Inr (JObject q))"
    and ne: "calls (process_2 w e q) \<noteq> []" by blast
  then have "truthy (p_email q)" "rx_test emailRegex (tmpl (p_email q))"
    "truthy (SHOPIFY_SHOP_DOMAIN e)" "truthy (SHOPIFY_ACCESS_TOKEN e)"
    by (auto simp: process_2_def Let_def split: if_splits)
  with q m show ?thesis
    using truthy_Some [of "p_email q"] truthy_Some [of "SHOPIFY_SHOP_DOMAIN e"]
      truthy_Some [of "SHOPIFY_ACCESS_TOKEN e"]
    by metis
qed

lemma part_000_handler_admits_only:
  assumes "calls (part_000_handler w e req) \<noteq> []"
  shows "\<exists>p em d t. req_method req = ''POST'' \<and>
    (req_body req = BodyObject p \<or>
     (\<exists>s. req_body req = BodyString s \<and> JSON_parse w s = Inr (JObject p))) \<and>
    p_email p = Some em \<and> rx_test emailRegex em \<and>
    SHOPIFY_SHOP_DOMAIN e = Some d \<and> d \<noteq> [] \<and> SHOPIFY_ACCESS_TOKEN e = Some t \<and> t \<noteq> []"
proof -
  from assms have m: "req_method req = ''POST''"
    by (auto simp: part_000_handler_def split: if_splits)
  from assms m have b: "\<exists>q. (req_body req = BodyObject q \<or>
     (\<exists>s. req_body req = BodyString s \<and> JSON_parse w s = Inr (JObject q))) \<and>
     calls (process_000 w e q) \<noteq> []"
    by (auto simp: part_000_handler_def
        split: if_splits sum.splits json_value.splits req_body.splits)
  then obtain q where q: "req_body req = BodyObject q \<or>
     (\<exists>s. req_body req = BodyString s \<and> JSON_parse w s = Inr (JObject q))"
    and ne: "calls (process_000 w e q) \<noteq> []" by blast
  then have "truthy (p_email q)" "rx_test emailRegex (tmpl (p_email q))"
    "truthy (SHOPIFY_SHOP_DOMAIN e)" "truthy (SHOPIFY_ACCESS_TOKEN e)"
    by (auto simp: process_000_def Let_def split: if_splits)
  with q m show ?thesis
    using truthy_Some [of "p_email q"] truthy_Some [of "SHOPIFY_SHOP_DOMAIN e"]
      truthy_Some [of "SHOPIFY_ACCESS_TOKEN e"]
    by metis
qed

lemma part_001_handler_admits_only:
  assumes "calls (part_001_handler w e req) \<noteq> []"
  shows "\<exists>p em d t. req_method req = ''POST'' \<and> req_body req = BodyObject p \<and>
    p_email p = Some em \<and> em \<noteq> [] \<and>
    SHOPIFY_SHOP_DOMAIN e = Some d \<and> d \<noteq> [] \<and> SHOPIFY_ACCESS_TOKEN e = Some t \<and> t \<noteq> []"
proof -
  from assms have m: "req_method req = ''POST''"
    by (auto simp: part_001_handler_def split: if_splits)
  from assms m have b: "\<exists>q. req_body req = BodyObject q \<and> calls (process_001 w e q) \<noteq> []"
    by (auto simp: part_001_handler_def destructure_def process_001_def truthy_def
        split: if_splits option.splits req_body.splits)
  then obtain q where q: "req_body req = BodyObject q"
    and ne: "calls (process_001 w e q) \<noteq> []" by blast
  then have "truthy (p_email q)"
    "truthy (SHOPIFY_SHOP_DOMAIN e)" "truthy (SHOPIFY_ACCESS_TOKEN e)"
    by (auto simp: process_001_def Let_def split: if_splits)
  with q m show ?thesis
    using truthy_Some [of "p_email q"] truthy_Some [of "SHOPIFY_SHOP_DOMAIN e"]
      truthy_Some [of "SHOPIFY_ACCESS_TOKEN e"]
    by metis
qed

subsection \<open>The update step\<close>

lemma calls_update_step_2:
  "\<exists>nxt. calls (update_step_2 w d t p em s c0) =
     s # update_request d t (updateData_2 w p c0) # nxt \<and>
     (nxt = [] \<or> nxt = [create_request d t (customerData_2 w p em 1)])"
  by (simp add: update_step_2_def create_step_2_def Let_def split: fetch_result.split sum.split)

lemma calls_update_step_000:
  "\<exists>nxt. calls (update_step_000 w e d t p em s c0) =
     s # update_request d t (updateData_000 w c0) # nxt \<and>
     (nxt = [] \<or> nxt = [create_request d t (customerData_000 w p em 1)])"
  by (simp add: update_step_000_def create_step_000_def Let_def
      split: fetch_result.split json_result.split sum.split)

lemma calls_update_step_001:
  "\<exists>nxt. calls (update_step_001 w d t p em s c0) =
     s # update_request d t (updateData_001 w p c0) # nxt \<and>
     (nxt = [] \<or> nxt = [create_request d t (customerData_001 w p em 1)])"
  by (simp add: update_step_001_def create_step_001_def Let_def split: fetch_result.split)




lemma uc_id_updateData [simp]:
  "uc_id (updateData_2 w p c0) = c_id c0"
  "uc_id (updateData_000 w c0) = c_id c0"
  "uc_id (updateData_001 w p c0) = c_id c0"
  by (simp_all add: updateData_2_def updateData_000_def updateData_001_def Let_def)

lemma update_request_sel [simp]:
  "ob_method (update_request d t u) = ''PUT''"
  "ob_url (update_request d t u) = update_url d (uc_id u)"
  "ob_body (update_request d t u) = UpdateData u"
  by (simp_all add: update_request_def)

lemma create_request_sel [simp]:
  "ob_method (create_request d t c) = ''POST''"
  "ob_url (create_request d t c) = create_url d"
  "ob_body (create_request d t c) = CustomerData c"
  by (simp_all add: create_request_def)

lemma search_request_sel [simp]:
  "ob_method (search_request w d t em) = ''GET''"
  "ob_body (search_request w d t em) = NoBody"
  by (simp_all add: search_request_def)

lemma update_url_inj: "update_url d i = update_url d j \<Longrightarrow> i = j"
  by (simp add: update_url_def)

lemma addresses_first_only:
  assumes "nxt = [] \<or> nxt = [create_request d t c]"
    and "i \<noteq> uc_id u"
    and "x \<in> set (search_request w d t em # update_request d t u # nxt)"
  shows "\<not> (ob_method x = ''PUT'' \<and> ob_url x = update_url d i) \<and>
    (\<forall>b. ob_body x = UpdateData b \<longrightarrow> uc_id b \<noteq> i)"
proof -
  from assms(1,3) consider "x = search_request w d t em" | "x = update_request d t u"
    | "x = create_request d t c" by auto
  then show ?thesis
  proof cases
    case 1
    then show ?thesis by simp
  next
    case 2
    then show ?thesis using assms(2) update_url_inj [of d "uc_id u" i] by auto
  next
    case 3
    then show ?thesis by simp
  qed
qed

subsection \<open>Facts about the sample platforms\<close>

lemma sample_ok [simp]:
  "ok \<lparr>resp_status = 200, resp_body = b\<rparr>"
  "ok \<lparr>resp_status = 201, resp_body = b\<rparr>"
  "\<not> ok \<lparr>resp_status = 500, resp_body = b\<rparr>"
  "\<not> ok \<lparr>resp_status = 422, resp_body = b\<rparr>"
  "\<not> ok \<lparr>resp_status = 404, resp_body = b\<rparr>"
  by (simp_all add: ok_def)

lemma sample_read [simp]:
  "resp_text \<lparr>resp_status = n, resp_body = Readable txt j\<rparr> = Inr txt"
  "resp_json \<lparr>resp_status = n, resp_body = Readable txt j\<rparr> = j"
  "resp_text \<lparr>resp_status = n, resp_body = Unreadable err\<rparr> = Inl err"
  "resp_json \<lparr>resp_status = n, resp_body = Unreadable err\<rparr> = JsonThrows err"
  by (simp_all add: resp_text_def resp_json_def)

lemma fetch_sample [simp]:
  "fetch (sample_platform a b c) (search_request w d t em) = a"
  "fetch (sample_platform a b c) (update_request d t u) = b"
  "fetch (sample_platform a b c) (create_request d t cd) = c"
  "fetch (sample_platform a b c) (legacy_request d t lc) = c"
  by (simp_all add: sample_platform_def legacy_request_def)

lemma sample_request [simp]:
  "req_method (post em tg) = ''POST''"
  "req_body (post em tg) =
     BodyObject \<lparr>p_email = Some em, p_source = None, p_discount_code = None, p_tags = tg\<rparr>"
  by (simp_all add: post_def)

lemma sample_env [simp]:
  "SHOPIFY_SHOP_DOMAIN sample_env = Some ''shop.example''"
  "SHOPIFY_ACCESS_TOKEN sample_env = Some ''token''"
  by (simp_all add: sample_env_def)


lemma valid_email_sample: "rx_test emailRegex ''a@b.com''"
  by (simp add: emailRegex_def is_space_def)

section \<open>The calls that follow the search\<close>

text \<open>
  C1. A POST whose email passes the handler's test (the pattern in src/api/webhook.js
  and part_000, presence in part_001), handled with the credentials set, makes each of
  the three find-or-create handlers issue the search. When the search returns a response
  whose customers list is empty, the handler issues exactly one more call, the create (a
  POST of a customer with that email to customers.json), and no PUT is among the calls
  of the invocation.
\<close>

theorem empty_search_creates_never_updates:
  assumes H: "(H = webhook_handler_2 \<or> H = part_000_handler) \<and> rx_test emailRegex em \<and>
                (req_body req = BodyObject p \<or>
                 (\<exists>s. req_body req = BodyString s \<and> JSON_parse w s = Inr (JObject p))) \<or>
              H = part_001_handler \<and> em \<noteq> [] \<and> req_body req = BodyObject p"
    and rq: "req_method req = ''POST''" "p_email p = Some em"
    and env: "SHOPIFY_SHOP_DOMAIN e = Some d" "d \<noteq> []"
      "SHOPIFY_ACCESS_TOKEN e = Some t" "t \<noteq> []"
    and sr: "fetch w (search_request w d t em) = Resolves sr" "ok sr"
      "resp_json sr = JsonDoc sd" "doc_customers sd = Some []"
  shows "\<exists>c cd. calls (H w e req) = [search_request w d t em, c] \<and>
    ob_method (search_request w d t em) = ''GET'' \<and>
    ob_method c = ''POST'' \<and>
    ob_url c = ''https://'' @ d @ ''/admin/api/2023-10/customers.json'' \<and>
    ob_body c = CustomerData cd \<and> cc_email cd = em \<and>
    ''PUT'' \<notin> set (map ob_method (calls (H w e req)))"
proof -
  from H consider
      (a) "H = webhook_handler_2" "rx_test emailRegex em"
        "req_body req = BodyObject p \<or>
         (\<exists>s. req_body req = BodyString s \<and> JSON_parse w s = Inr (JObject p))"
    | (b) "H = part_000_handler" "rx_test emailRegex em"
        "req_body req = BodyObject p \<or>
         (\<exists>s. req_body req = BodyString s \<and> JSON_parse w s = Inr (JObject p))"
    | (c) "H = part_001_handler" "em \<noteq> []" "req_body req = BodyObject p"
    by blast
  then show ?thesis
  proof cases
    case a
    then have "H w e req = upsert_2 w d t p em"
      using webhook_handler_2_admits [OF rq(1) a(3) rq(2) a(2) env] by simp
    also have "\<dots> = create_step_2 w d t p em [search_request w d t em] 0"
      using upsert_2_not_found [OF sr] .
    finally show ?thesis
      by (simp add: create_step_2_def customerData_2_def create_url_def Let_def)
  next
    case b
    then have "H w e req = upsert_000 w e d t p em"
      using part_000_handler_admits [OF rq(1) b(3) rq(2) b(2) env] by simp
    also have "\<dots> = create_step_000 w e d t p em [search_request w d t em] 0"
      using upsert_000_not_found [OF sr] .
    finally show ?thesis
      by (simp add: create_step_000_def customerData_000_def create_url_def Let_def)
  next
    case c
    then have "H w e req = upsert_001 w d t p em"
      using part_001_handler_admits [OF rq(1) c(3) rq(2) c(2) env] by simp
    also have "\<dots> = create_step_001 w d t p em [search_request w d t em] 0"
      using upsert_001_not_found [OF sr] .
    finally show ?thesis
      by (simp add: create_step_001_def customerData_001_def create_url_def Let_def)
  qed
qed

theorem empty_search_creates_never_updates_witness:
  "req_method (post ''a@b.com'' None) = ''POST'' \<and>
   req_body (post ''a@b.com'' None) =
     BodyObject \<lparr>p_email = Some ''a@b.com'', p_source = None, p_discount_code = None,
                 p_tags = None\<rparr> \<and>
   rx_test emailRegex ''a@b.com'' \<and>
   SHOPIFY_SHOP_DOMAIN sample_env = Some ''shop.example'' \<and>
   SHOPIFY_ACCESS_TOKEN sample_env = Some ''token'' \<and>
   fetch world_new (search_request world_new ''shop.example'' ''token'' ''a@b.com'') =
     Resolves \<lparr>resp_status = 200, resp_body = Readable ''(customers)''
       (JsonDoc \<lparr>doc_customers = Some [], doc_customer = None\<rparr>)\<rparr> \<and>
   map ob_method (calls (webhook_handler_2 world_new sample_env (post ''a@b.com'' None))) =
     [''GET'', ''POST''] \<and>
   map ob_method (calls (part_000_handler world_new sample_env (post ''a@b.com'' None))) =
     [''GET'', ''POST''] \<and>
   map ob_method (calls (part_001_handler world_new sample_env (post ''a@b.com'' None))) =
     [''GET'', ''POST''] \<and>
   map ob_url (calls (part_001_handler world_new sample_env (post ''a@b.com'' None))) =
     [''https://shop.example/admin/api/2023-10/customers/search.json?query=email:a%40b.com'',
      ''https://shop.example/admin/api/2023-10/customers.json'']"
proof -
  let ?p = "\<lparr>p_email = Some ''a@b.com'', p_source = None, p_discount_code = None,
                 p_tags = None\<rparr>"
  let ?sd = "\<lparr>doc_customers = Some [], doc_customer = None\<rparr>"
  let ?sr = "\<lparr>resp_status = 200, resp_body = Readable ''(customers)'' (JsonDoc ?sd)\<rparr>"
  let ?s = "search_request world_new ''shop.example'' ''token'' ''a@b.com''"
  have m: "req_method (post ''a@b.com'' None) = ''POST''" by simp
  have b: "req_body (post ''a@b.com'' None) = BodyObject ?p" by simp
  have em: "p_email ?p = Some ''a@b.com''" by simp
  have d: "SHOPIFY_SHOP_DOMAIN sample_env = Some ''shop.example''" "''shop.example'' \<noteq> []"
    and t: "SHOPIFY_ACCESS_TOKEN sample_env = Some ''token''" "''token'' \<noteq> []" by simp_all
  have f: "fetch world_new ?s = Resolves ?sr"
    by (simp add: world_new_def found_def answers_def)
  have o: "ok ?sr" and j: "resp_json ?sr = JsonDoc ?sd" and c: "doc_customers ?sd = Some []"
    by simp_all
  have H2: "(webhook_handler_2 = webhook_handler_2 \<or> webhook_handler_2 = part_000_handler) \<and>
      rx_test emailRegex ''a@b.com'' \<and>
      (req_body (post ''a@b.com'' None) = BodyObject ?p \<or>
       (\<exists>s. req_body (post ''a@b.com'' None) = BodyString s \<and>
         JSON_parse world_new s = Inr (JObject ?p)))"
    using valid_email_sample by simp
  have H0: "(part_000_handler = webhook_handler_2 \<or> part_000_handler = part_000_handler) \<and>
      rx_test emailRegex ''a@b.com'' \<and>
      (req_body (post ''a@b.com'' None) = BodyObject ?p \<or>
       (\<exists>s. req_body (post ''a@b.com'' None) = BodyString s \<and>
         JSON_parse world_new s = Inr (JObject ?p)))"
    using valid_email_sample by simp
  have H1: "part_001_handler = part_001_handler \<and> ''a@b.com'' \<noteq> [] \<and>
      req_body (post ''a@b.com'' None) = BodyObject ?p"
    by simp
  note r2 = empty_search_creates_never_updates [OF disjI1 [OF H2] m em d t f o j c]
  note r0 = empty_search_creates_never_updates [OF disjI1 [OF H0] m em d t f o j c]
  note r1 = empty_search_creates_never_updates [OF disjI2 [OF H1] m em d t f o j c]
  from r2 have 2: "map ob_method (calls (webhook_handler_2 world_new sample_env
      (post ''a@b.com'' None))) = [''GET'', ''POST'']" by auto
  from r0 have 0: "map ob_method (calls (part_000_handler world_new sample_env
      (post ''a@b.com'' None))) = [''GET'', ''POST'']" by auto
  from r1 have 1: "map ob_method (calls (part_001_handler world_new sample_env
      (post ''a@b.com'' None))) = [''GET'', ''POST'']" by auto
  from r1 have u: "map ob_url (calls (part_001_handler world_new sample_env
      (post ''a@b.com'' None))) =
     [''https://shop.example/admin/api/2023-10/customers/search.json?query=email:a%40b.com'',
      ''https://shop.example/admin/api/2023-10/customers.json'']"
    by (auto simp: search_request_def world_new_def sample_platform_def)
  from 2 0 1 u f valid_email_sample show ?thesis by simp
qed

text \<open>
  C2 (as amended). A POST whose email passes the handler's test (the pattern in src/api/webhook.js
  and part_000, presence in part_001), handled with the credentials set, makes each of
  the three find-or-create handlers issue the search. When the search returns one or
  more customers, the next call is a PUT to the customer URL of the first customer's id,
  with that id in its body; at most a create (a POST to customers.json) follows; and no
  call of the invocation is a PUT to the URL of, or carries an update body for, a later
  customer of the result whose id differs from the first's. The ids are the values the
  handler reads from the parsed response.
\<close>

theorem found_updates_first_customer_only:
  assumes H: "(H = webhook_handler_2 \<or> H = part_000_handler) \<and> rx_test emailRegex em \<and>
                (req_body req = BodyObject p \<or>
                 (\<exists>s. req_body req = BodyString s \<and> JSON_parse w s = Inr (JObject p))) \<or>
              H = part_001_handler \<and> em \<noteq> [] \<and> req_body req = BodyObject p"
    and rq: "req_method req = ''POST''" "p_email p = Some em"
    and env: "SHOPIFY_SHOP_DOMAIN e = Some d" "d \<noteq> []"
      "SHOPIFY_ACCESS_TOKEN e = Some t" "t \<noteq> []"
    and sr: "fetch w (search_request w d t em) = Resolves sr" "ok sr"
      "resp_json sr = JsonDoc sd" "doc_customers sd = Some (c0 # cs)"
  shows "\<exists>u nxt b. calls (H w e req) = search_request w d t em # u # nxt \<and>
    ob_method u = ''PUT'' \<and>
    ob_url u = ''https://'' @ d @ ''/admin/api/2023-10/customers/'' @ c_id c0 @ ''.json'' \<and>
    ob_body u = UpdateData b \<and> uc_id b = c_id c0 \<and>
    length nxt \<le> 1 \<and>
    (\<forall>c \<in> set nxt. ob_method c = ''POST'' \<and>
       ob_url c = ''https://'' @ d @ ''/admin/api/2023-10/customers.json'' \<and>
       (\<exists>cd. ob_body c = CustomerData cd)) \<and>
    (\<forall>x \<in> set cs. c_id x \<noteq> c_id c0 \<longrightarrow>
       (\<forall>c \<in> set (calls (H w e req)).
          \<not> (ob_method c = ''PUT'' \<and>
             ob_url c = ''https://'' @ d @ ''/admin/api/2023-10/customers/'' @ c_id x @ ''.json'') \<and>
          (\<forall>b. ob_body c = UpdateData b \<longrightarrow> uc_id b \<noteq> c_id x)))"
proof -
  have "\<exists>ub nxt cd. calls (H w e req) =
      search_request w d t em # update_request d t ub # nxt \<and>
      (nxt = [] \<or> nxt = [create_request d t cd]) \<and> uc_id ub = c_id c0"
  proof -
    from H consider
        (a) "H = webhook_handler_2" "rx_test emailRegex em"
          "req_body req = BodyObject p \<or>
           (\<exists>s. req_body req = BodyString s \<and> JSON_parse w s = Inr (JObject p))"
      | (b) "H = part_000_handler" "rx_test emailRegex em"
          "req_body req = BodyObject p \<or>
           (\<exists>s. req_body req = BodyString s \<and> JSON_parse w s = Inr (JObject p))"
      | (c) "H = part_001_handler" "em \<noteq> []" "req_body req = BodyObject p"
      by blast
    then show ?thesis
    proof cases
      case a
      then have "H w e req = upsert_2 w d t p em"
        using webhook_handler_2_admits [OF rq(1) a(3) rq(2) a(2) env] by simp
      also have "\<dots> = update_step_2 w d t p em (search_request w d t em) c0"
        using upsert_2_found [OF sr] .
      finally show ?thesis
        using calls_update_step_2 [of w d t p em "search_request w d t em" c0]
          uc_id_updateData(1) by metis
    next
      case b
      then have "H w e req = upsert_000 w e d t p em"
        using part_000_handler_admits [OF rq(1) b(3) rq(2) b(2) env] by simp
      also have "\<dots> = update_step_000 w e d t p em (search_request w d t em) c0"
        using upsert_000_found [OF sr] .
      finally show ?thesis
        using calls_update_step_000 [of w e d t p em "search_request w d t em" c0]
          uc_id_updateData(2) by metis
    next
      case c
      then have "H w e req = upsert_001 w d t p em"
        using part_001_handler_admits [OF rq(1) c(3) rq(2) c(2) env] by simp
      also have "\<dots> = update_step_001 w d t p em (search_request w d t em) c0"
        using upsert_001_found [OF sr] .
      finally show ?thesis
        using calls_update_step_001 [of w d t p em "search_request w d t em" c0]
          uc_id_updateData(3) by metis
    qed
  qed
  then obtain ub nxt cd where
    cl: "calls (H w e req) = search_request w d t em # update_request d t ub # nxt"
    and nxt: "nxt = [] \<or> nxt = [create_request d t cd]"
    and ub: "uc_id ub = c_id c0"
    by blast
  have later: "\<not> (ob_method c = ''PUT'' \<and>
        ob_url c = ''https://'' @ d @ ''/admin/api/2023-10/customers/'' @ c_id x @ ''.json'') \<and>
      (\<forall>b. ob_body c = UpdateData b \<longrightarrow> uc_id b \<noteq> c_id x)"
    if "c_id x \<noteq> c_id c0" and "c \<in> set (calls (H w e req))" for x c
    using addresses_first_only [OF nxt, of "c_id x" ub c w em] that ub cl
    by (simp add: update_url_def)
  from nxt have tail: "length nxt \<le> 1 \<and>
    (\<forall>c \<in> set nxt. ob_method c = ''POST'' \<and>
       ob_url c = ''https://'' @ d @ ''/admin/api/2023-10/customers.json'' \<and>
       (\<exists>cd. ob_body c = CustomerData cd))"
    by (auto simp: create_url_def)
  have upd: "ob_method (update_request d t ub) = ''PUT'' \<and>
    ob_url (update_request d t ub) =
      ''https://'' @ d @ ''/admin/api/2023-10/customers/'' @ c_id c0 @ ''.json'' \<and>
    ob_body (update_request d t ub) = UpdateData ub"
    using ub by (simp add: update_url_def)
  from cl upd ub tail later show ?thesis by blast
qed

theorem found_updates_first_customer_only_witness:
  "req_method (post ''a@b.com'' (Some ''vip'')) = ''POST'' \<and>
   req_body (post ''a@b.com'' (Some ''vip'')) =
     BodyObject \<lparr>p_email = Some ''a@b.com'', p_source = None, p_discount_code = None,
                 p_tags = Some ''vip''\<rparr> \<and>
   rx_test emailRegex ''a@b.com'' \<and>
   fetch world_found (search_request world_found ''shop.example'' ''token'' ''a@b.com'') =
     Resolves \<lparr>resp_status = 200, resp_body = Readable ''(customers)''
       (JsonDoc \<lparr>doc_customers = Some [gold_customer, other_customer],
                 doc_customer = None\<rparr>)\<rparr> \<and>
   c_id gold_customer = ''7'' \<and> c_id other_customer = ''9'' \<and>
   take 2 (map ob_url (calls (webhook_handler_2 world_found sample_env
      (post ''a@b.com'' (Some ''vip''))))) =
     [''https://shop.example/admin/api/2023-10/customers/search.json?query=email:a%40b.com'',
      ''https://shop.example/admin/api/2023-10/customers/7.json''] \<and>
   take 2 (map ob_url (calls (part_000_handler world_found sample_env
      (post ''a@b.com'' (Some ''vip''))))) =
     [''https://shop.example/admin/api/2023-10/customers/search.json?query=email:a%40b.com'',
      ''https://shop.example/admin/api/2023-10/customers/7.json''] \<and>
   take 2 (map ob_url (calls (part_001_handler world_found sample_env
      (post ''a@b.com'' (Some ''vip''))))) =
     [''https://shop.example/admin/api/2023-10/customers/search.json?query=email:a%40b.com'',
      ''https://shop.example/admin/api/2023-10/customers/7.json''] \<and>
   (''PUT'', ''https://shop.example/admin/api/2023-10/customers/9.json'') \<notin>
     set (zip
       (map ob_method
          (calls (part_001_handler world_found sample_env (post ''a@b.com'' (Some ''vip'')))))
       (map ob_url
          (calls (part_001_handler world_found sample_env (post ''a@b.com'' (Some ''vip''))))))"
proof -
  let ?p = "\<lparr>p_email = Some ''a@b.com'', p_source = None, p_discount_code = None,
                 p_tags = Some ''vip''\<rparr>"
  let ?rq = "post ''a@b.com'' (Some ''vip'')"
  let ?sd = "\<lparr>doc_customers = Some [gold_customer, other_customer], doc_customer = None\<rparr>"
  let ?sr = "\<lparr>resp_status = 200, resp_body = Readable ''(customers)'' (JsonDoc ?sd)\<rparr>"
  let ?s = "search_request world_found ''shop.example'' ''token'' ''a@b.com''"
  let ?su = "''https://shop.example/admin/api/2023-10/customers/search.json?query=email:a%40b.com''"
  have m: "req_method ?rq = ''POST''" by simp
  have b: "req_body ?rq = BodyObject ?p" by simp
  have em: "p_email ?p = Some ''a@b.com''" by simp
  have d: "SHOPIFY_SHOP_DOMAIN sample_env = Some ''shop.example''" "''shop.example'' \<noteq> []"
    and t: "SHOPIFY_ACCESS_TOKEN sample_env = Some ''token''" "''token'' \<noteq> []" by simp_all
  have f: "fetch world_found ?s = Resolves ?sr"
    by (simp add: world_found_def found_def answers_def)
  have o: "ok ?sr" and j: "resp_json ?sr = JsonDoc ?sd"
    and c: "doc_customers ?sd = Some (gold_customer # [other_customer])"
    by simp_all
  have ids: "c_id gold_customer = ''7''" "c_id other_customer = ''9''"
    by (simp_all add: gold_customer_def other_customer_def)
  have su: "ob_url ?s = ?su"
    by (simp add: search_request_def world_found_def sample_platform_def)
  have H2: "(webhook_handler_2 = webhook_handler_2 \<or> webhook_handler_2 = part_000_handler) \<and>
      rx_test emailRegex ''a@b.com'' \<and>
      (req_body ?rq = BodyObject ?p \<or>
       (\<exists>s. req_body ?rq = BodyString s \<and> JSON_parse world_found s = Inr (JObject ?p)))"
    using valid_email_sample by simp
  have H0: "(part_000_handler = webhook_handler_2 \<or> part_000_handler = part_000_handler) \<and>
      rx_test emailRegex ''a@b.com'' \<and>
      (req_body ?rq = BodyObject ?p \<or>
       (\<exists>s. req_body ?rq = BodyString s \<and> JSON_parse world_found s = Inr (JObject ?p)))"
    using valid_email_sample by simp
  have H1: "part_001_handler = part_001_handler \<and> ''a@b.com'' \<noteq> [] \<and>
      req_body ?rq = BodyObject ?p"
    by simp
  note r2 = found_updates_first_customer_only [OF disjI1 [OF H2] m em d t f o j c]
  note r0 = found_updates_first_customer_only [OF disjI1 [OF H0] m em d t f o j c]
  note r1 = found_updates_first_customer_only [OF disjI2 [OF H1] m em d t f o j c]
  from r2 su ids have 2: "take 2 (map ob_url (calls (webhook_handler_2 world_found sample_env
      ?rq))) = [?su, ''https://shop.example/admin/api/2023-10/customers/7.json'']"
    by auto
  from r0 su ids have 0: "take 2 (map ob_url (calls (part_000_handler world_found sample_env
      ?rq))) = [?su, ''https://shop.example/admin/api/2023-10/customers/7.json'']"
    by auto
  from r1 su ids have 1: "take 2 (map ob_url (calls (part_001_handler world_found sample_env
      ?rq))) = [?su, ''https://shop.example/admin/api/2023-10/customers/7.json'']"
    by auto
  from r1 ids have "\<forall>c \<in> set (calls (part_001_handler world_found sample_env ?rq)).
      \<not> (ob_method c = ''PUT'' \<and>
         ob_url c = ''https://shop.example/admin/api/2023-10/customers/9.json'')"
    by auto
  then have 9: "(''PUT'', ''https://shop.example/admin/api/2023-10/customers/9.json'') \<notin>
     set (zip (map ob_method (calls (part_001_handler world_found sample_env ?rq)))
       (map ob_url (calls (part_001_handler world_found sample_env ?rq))))"
    by (auto simp: zip_map_map zip_same_conv_map)
  from 2 0 1 9 f ids valid_email_sample show ?thesis by simp
qed

lemma run_2_twins:
  "webhook_handler_2 world_twins sample_env (post ''a@b.com'' None) =
     \<lparr>calls =
        [search_request world_twins ''shop.example'' ''token'' ''a@b.com'',
         \<lparr>ob_method = ''PUT'',
          ob_url = ''https://shop.example/admin/api/2023-10/customers/9007199254740992.json'',
          ob_token = ''token'',
          ob_body = UpdateData
            \<lparr>uc_id = ''9007199254740992'',
             uc_email_marketing_consent = email_marketing_consent world_twins 0,
             uc_tags = Some ''gold,newsletter,discount-popup,popup-subscriber''\<rparr>\<rparr>],
      reply = Json 200 [(''success'', JBool True),
         (''message'', JStr ''Customer already exists - updated marketing consent''),
         (''customer_id'', JId ''9007199254740992''),
         (''email'', JStr ''a@b.com''),
         (''existing_customer'', JBool True)]\<rparr>"
  by (simp add: shared_defs defs_2 sample_defs Let_def)

theorem update_addresses_a_later_customer_with_the_same_id:
  "fetch world_twins (search_request world_twins ''shop.example'' ''token'' ''a@b.com'') =
     found [first_twin, second_twin] \<and>
   c_id second_twin = ''9007199254740992'' \<and>
   map ob_method (calls (webhook_handler_2 world_twins sample_env (post ''a@b.com'' None))) =
     [''GET'', ''PUT''] \<and>
   map ob_url (calls (webhook_handler_2 world_twins sample_env (post ''a@b.com'' None))) =
     [''https://shop.example/admin/api/2023-10/customers/search.json?query=email:a%40b.com'',
      ''https://shop.example/admin/api/2023-10/customers/'' @ c_id second_twin @ ''.json'']"
  using run_2_twins
  by (simp add: world_twins_def second_twin_def search_request_def sample_platform_def)

subsection \<open>The reply of the create step\<close>





lemma field_Json_hd [simp]: "v \<noteq> JUndefined \<Longrightarrow> field (Json n ((k, v) # fs)) k = Some v"
  by (cases v) simp_all





text \<open>
  C6 (as amended). A POST whose email passes the handler's test (the pattern in
  src/api/webhook.js and part_000, presence in part_001), handled with the credentials
  set, makes each of the three find-or-create handlers issue the search. When the search
  returns a non-success response, the search is the only call of the invocation (no
  update and no create follows) and the reply is a 500; when the body of that response
  can be read, the reply has an error field and its details carry the upstream status
  (in src/api/webhook.js and part_001 followed by the upstream body).
\<close>

theorem search_failure_is_terminal:
  assumes H: "(H = webhook_handler_2 \<and> with_body \<or> H = part_000_handler \<and> \<not> with_body) \<and>
                rx_test emailRegex em \<and>
                (req_body req = BodyObject p \<or>
                 (\<exists>s. req_body req = BodyString s \<and> JSON_parse w s = Inr (JObject p))) \<or>
              H = part_001_handler \<and> with_body \<and> em \<noteq> [] \<and> req_body req = BodyObject p"
    and rq: "req_method req = ''POST''" "p_email p = Some em"
    and env: "SHOPIFY_SHOP_DOMAIN e = Some d" "d \<noteq> []"
      "SHOPIFY_ACCESS_TOKEN e = Some t" "t \<noteq> []"
    and sr: "fetch w (search_request w d t em) = Resolves sr" "\<not> ok sr"
  shows "calls (H w e req) = [search_request w d t em] \<and>
    ob_method (search_request w d t em) = ''GET'' \<and>
    code (reply (H w e req)) = 500 \<and>
    (\<forall>txt. resp_text sr = Inr txt \<longrightarrow>
       field (reply (H w e req)) ''error'' \<noteq> None \<and>
       field (reply (H w e req)) ''details'' =
         Some (JStr (''Shopify API Error: '' @ show_nat (resp_status sr) @
                (if with_body then '' - '' @ txt else []))))"
proof -
  from H consider
      (a) "H = webhook_handler_2" "with_body" "rx_test emailRegex em"
        "req_body req = BodyObject p \<or>
         (\<exists>s. req_body req = BodyString s \<and> JSON_parse w s = Inr (JObject p))"
    | (b) "H = part_000_handler" "\<not> with_body" "rx_test emailRegex em"
        "req_body req = BodyObject p \<or>
         (\<exists>s. req_body req = BodyString s \<and> JSON_parse w s = Inr (JObject p))"
    | (c) "H = part_001_handler" "with_body" "em \<noteq> []" "req_body req = BodyObject p"
    by blast
  then show ?thesis
  proof cases
    case a
    have "H w e req = upsert_2 w d t p em"
      using webhook_handler_2_admits [OF rq(1) a(4) rq(2) a(3) env] a(1) by simp
    then show ?thesis
      using sr a(2)
      by (cases "resp_text sr") (simp_all add: upsert_2_def shopify_failed_2_def)
  next
    case b
    have "H w e req = upsert_000 w e d t p em"
      using part_000_handler_admits [OF rq(1) b(4) rq(2) b(3) env] b(1) by simp
    then show ?thesis
      using sr b(2)
      by (cases "resp_text sr") (simp_all add: upsert_000_def internal_error_000_def)
  next
    case c
    have "H w e req = upsert_001 w d t p em"
      using part_001_handler_admits [OF rq(1) c(4) rq(2) c(3) env] c(1) by simp
    then show ?thesis
      using sr c(2)
      by (cases "resp_text sr") (simp_all add: upsert_001_def internal_error_001_def)
  qed
qed

theorem search_failure_is_terminal_witness:
  "req_method (post ''a@b.com'' None) = ''POST'' \<and>
   req_body (post ''a@b.com'' None) =
     BodyObject \<lparr>p_email = Some ''a@b.com'', p_source = None, p_discount_code = None,
                 p_tags = None\<rparr> \<and>
   rx_test emailRegex ''a@b.com'' \<and>
   fetch world_search_refused
     (search_request world_search_refused ''shop.example'' ''token'' ''a@b.com'') =
     Resolves \<lparr>resp_status = 500, resp_body = Readable ''(errors)''
       (JsonDoc \<lparr>doc_customers = None, doc_customer = None\<rparr>)\<rparr> \<and>
   \<not> ok \<lparr>resp_status = 500, resp_body = Readable ''(errors)''
       (JsonDoc \<lparr>doc_customers = None, doc_customer = None\<rparr>)\<rparr> \<and>
   map ob_method (calls (webhook_handler_2 world_search_refused sample_env
     (post ''a@b.com'' None))) = [''GET''] \<and>
   code (reply (webhook_handler_2 world_search_refused sample_env (post ''a@b.com'' None))) =
     500 \<and>
   field (reply (webhook_handler_2 world_search_refused sample_env (post ''a@b.com'' None)))
     ''details'' = Some (JStr ''Shopify API Error: 500 - (errors)'') \<and>
   map ob_method (calls (part_000_handler world_search_refused sample_env
     (post ''a@b.com'' None))) = [''GET''] \<and>
   code (reply (part_000_handler world_search_refused sample_env (post ''a@b.com'' None))) =
     500 \<and>
   field (reply (part_000_handler world_search_refused sample_env (post ''a@b.com'' None)))
     ''details'' = Some (JStr ''Shopify API Error: 500'') \<and>
   map ob_method (calls (part_001_handler world_search_refused sample_env
     (post ''a@b.com'' None))) = [''GET''] \<and>
   code (reply (part_001_handler world_search_refused sample_env (post ''a@b.com'' None))) =
     500 \<and>
   field (reply (part_001_handler world_search_refused sample_env (post ''a@b.com'' None)))
     ''details'' = Some (JStr ''Shopify API Error: 500 - (errors)'')"
proof -
  let ?w = world_search_refused
  let ?rq = "post ''a@b.com'' None"
  let ?p = "\<lparr>p_email = Some ''a@b.com'', p_source = None, p_discount_code = None,
                 p_tags = None\<rparr>"
  let ?sr = "\<lparr>resp_status = 500, resp_body = Readable ''(errors)''
       (JsonDoc \<lparr>doc_customers = None, doc_customer = None\<rparr>)\<rparr>"
  let ?s = "search_request ?w ''shop.example'' ''token'' ''a@b.com''"
  have m: "req_method ?rq = ''POST''" by simp
  have em: "p_email ?p = Some ''a@b.com''" by simp
  have d: "SHOPIFY_SHOP_DOMAIN sample_env = Some ''shop.example''" "''shop.example'' \<noteq> []"
    and t: "SHOPIFY_ACCESS_TOKEN sample_env = Some ''token''" "''token'' \<noteq> []" by simp_all
  have f: "fetch ?w ?s = Resolves ?sr"
    by (simp add: world_search_refused_def refused_def answers_def)
  have n: "\<not> ok ?sr" by simp
  have tx: "resp_text ?sr = Inr ''(errors)''" "resp_status ?sr = 500" by simp_all
  have H2: "(webhook_handler_2 = webhook_handler_2 \<and> True \<or>
      webhook_handler_2 = part_000_handler \<and> \<not> True) \<and>
      rx_test emailRegex ''a@b.com'' \<and>
      (req_body ?rq = BodyObject ?p \<or>
       (\<exists>s. req_body ?rq = BodyString s \<and> JSON_parse ?w s = Inr (JObject ?p)))"
    using valid_email_sample by simp
  have H0: "(part_000_handler = webhook_handler_2 \<and> False \<or>
      part_000_handler = part_000_handler \<and> \<not> False) \<and>
      rx_test emailRegex ''a@b.com'' \<and>
      (req_body ?rq = BodyObject ?p \<or>
       (\<exists>s. req_body ?rq = BodyString s \<and> JSON_parse ?w s = Inr (JObject ?p)))"
    using valid_email_sample by simp
  have H1: "part_001_handler = part_001_handler \<and> True \<and> ''a@b.com'' \<noteq> [] \<and>
      req_body ?rq = BodyObject ?p"
    by simp
  note r2 = search_failure_is_terminal [OF disjI1 [OF H2] m em d t f n]
  note r0 = search_failure_is_terminal [OF disjI1 [OF H0] m em d t f n]
  note r1 = search_failure_is_terminal [OF disjI2 [OF H1] m em d t f n]
  from r2 tx have 2: "map ob_method (calls (webhook_handler_2 ?w sample_env ?rq)) = [''GET''] \<and>
      code (reply (webhook_handler_2 ?w sample_env ?rq)) = 500 \<and>
      field (reply (webhook_handler_2 ?w sample_env ?rq)) ''details'' =
        Some (JStr ''Shopify API Error: 500 - (errors)'')"
    by simp
  from r0 tx have 0: "map ob_method (calls (part_000_handler ?w sample_env ?rq)) = [''GET''] \<and>
      code (reply (part_000_handler ?w sample_env ?rq)) = 500 \<and>
      field (reply (part_000_handler ?w sample_env ?rq)) ''details'' =
        Some (JStr ''Shopify API Error: 500'')"
    by simp
  from r1 tx have 1: "map ob_method (calls (part_001_handler ?w sample_env ?rq)) = [''GET''] \<and>
      code (reply (part_001_handler ?w sample_env ?rq)) = 500 \<and>
      field (reply (part_001_handler ?w sample_env ?rq)) ''details'' =
        Some (JStr ''Shopify API Error: 500 - (errors)'')"
    by simp
  from 2 0 1 f n valid_email_sample show ?thesis by simp
qed

lemma run_2_search_cut_off:
  "webhook_handler_2 world_search_cut_off sample_env (post ''a@b.com'' None) =
     \<lparr>calls = [search_request world_search_cut_off ''shop.example'' ''token'' ''a@b.com''],
      reply = Json 500 [(''error'', JStr ''Shopify API request failed''),
                        (''details'', JStr ''terminated'')]\<rparr>"
  by (simp add: shared_defs defs_2 sample_defs Let_def)

lemma no_status_in_terminated: "\<not> str_includes ''terminated'' ''500''"
  by code_simp

theorem unreadable_search_response_hides_the_status:
  "fetch world_search_cut_off
     (search_request world_search_cut_off ''shop.example'' ''token'' ''a@b.com'') =
     Resolves \<lparr>resp_status = 500, resp_body = Unreadable (JsError ''terminated'' [])\<rparr> \<and>
   \<not> ok \<lparr>resp_status = 500, resp_body = Unreadable (JsError ''terminated'' [])\<rparr> \<and>
   map ob_method (calls (webhook_handler_2 world_search_cut_off sample_env
     (post ''a@b.com'' None))) = [''GET''] \<and>
   reply (webhook_handler_2 world_search_cut_off sample_env (post ''a@b.com'' None)) =
     Json 500 [(''error'', JStr ''Shopify API request failed''),
               (''details'', JStr ''terminated'')] \<and>
   \<not> str_includes ''terminated'' ''500''"
  using run_2_search_cut_off no_status_in_terminated
  by (simp add: world_search_cut_off_def cut_off_def)

section \<open>The create-only handler\<close>

lemma create_url_inj: "create_url d = create_url d' \<Longrightarrow> d = d'"
  by (simp add: create_url_def)

lemma legacy_request_inj:
  "legacy_request d t cd = legacy_request d' t' cd' \<Longrightarrow> d = d' \<and> t = t' \<and> cd = cd'"
  by (auto simp: legacy_request_def dest: create_url_inj)

lemma process_1_issues:
  "calls (process_1 w e p) \<noteq> [] \<Longrightarrow>
   calls (process_1 w e p) =
     [legacy_request (tmpl (SHOPIFY_SHOP_DOMAIN e)) (tmpl (SHOPIFY_ACCESS_TOKEN e))
        (customerData_1 w p (tmpl (p_email p)))] \<and>
   reply (process_1 w e p) =
     (case createShopifyCustomer w (customerData_1 w p (tmpl (p_email p)))
             (tmpl (SHOPIFY_ACCESS_TOKEN e)) (tmpl (SHOPIFY_SHOP_DOMAIN e)) of
        Inl error \<Rightarrow> catch_1 error
      | Inr None \<Rightarrow> catch_1 (type_error w ''customer.id'')
      | Inr (Some customer) \<Rightarrow>
          Json 200 [(''success'', JBool True),
                    (''customer_id'', JId (c_id customer)),
                    (''email'', JStr (c_email customer)),
                    (''message'', JStr ''Customer created successfully'')])"
  by (simp add: process_1_def Let_def split: if_splits sum.splits option.splits)

lemma webhook_handler_1_reaches:
  "calls (webhook_handler_1 w e req) \<noteq> [] \<Longrightarrow>
   \<exists>p. webhook_handler_1 w e req = process_1 w e p \<and>
     (\<forall>q. req_body req = BodyObject q \<longrightarrow> q = p)"
  by (auto simp: webhook_handler_1_def destructure_def
      split: if_splits option.splits req_body.splits)

lemma calls_webhook_handler_1:
  "calls (webhook_handler_1 w e req) = [] \<or>
   (\<exists>d t cd. calls (webhook_handler_1 w e req) = [legacy_request d t cd])"
  using webhook_handler_1_reaches [of w e req] process_1_issues [of w e] by metis

text \<open>
  C10. The first handler of src/api/webhook.js issues no search (GET) and no update
  (PUT). When its create call fails with an error whose message contains "422", it
  replies 200 with success true and the message "Customer already exists - updated
  marketing consent"; on every other failure of the create call it replies 500.
\<close>

theorem create_only_handler_reports_422_as_updated:
  assumes tr: "calls (webhook_handler_1 w e req) = [legacy_request d t cd]"
    and fails: "createShopifyCustomer w cd t d = Inl err"
  shows "''GET'' \<notin> set (map ob_method (calls (webhook_handler_1 w e req))) \<and>
    ''PUT'' \<notin> set (map ob_method (calls (webhook_handler_1 w e req))) \<and>
    (if str_includes (message err) ''422''
     then reply (webhook_handler_1 w e req) =
       Json 200 [(''success'', JBool True),
                 (''message'', JStr ''Customer already exists - updated marketing consent''),
                 (''note'', JStr ''Email was already in system'')]
     else code (reply (webhook_handler_1 w e req)) = 500)"
proof -
  from tr have ne: "calls (webhook_handler_1 w e req) \<noteq> []" by simp
  then obtain p where r: "webhook_handler_1 w e req = process_1 w e p"
    using webhook_handler_1_reaches by blast
  let ?cd = "customerData_1 w p (tmpl (p_email p))"
  let ?D = "tmpl (SHOPIFY_SHOP_DOMAIN e)" and ?T = "tmpl (SHOPIFY_ACCESS_TOKEN e)"
  from ne r have cl: "calls (process_1 w e p) = [legacy_request ?D ?T ?cd]"
    and rp: "reply (process_1 w e p) =
     (case createShopifyCustomer w ?cd ?T ?D of
        Inl error \<Rightarrow> catch_1 error
      | Inr None \<Rightarrow> catch_1 (type_error w ''customer.id'')
      | Inr (Some customer) \<Rightarrow>
          Json 200 [(''success'', JBool True),
                    (''customer_id'', JId (c_id customer)),
                    (''email'', JStr (c_email customer)),
                    (''message'', JStr ''Customer created successfully'')])"
    using process_1_issues [of w e p] by simp_all
  from cl tr r have "legacy_request ?D ?T ?cd = legacy_request d t cd" by simp
  then have "d = ?D" "t = ?T" "cd = ?cd" using legacy_request_inj by metis+
  with fails rp r have "reply (webhook_handler_1 w e req) = catch_1 err" by simp
  with tr show ?thesis by (simp add: catch_1_def legacy_request_def)
qed

lemma includes_422: "str_includes ''Shopify API Error: 422 - (errors)'' ''422''"
  by code_simp

lemma run_1_duplicate:
  "webhook_handler_1 world_duplicate sample_env (post ''a@b.com'' None) =
     \<lparr>calls =
        [legacy_request ''shop.example'' ''token''
           (customerData_1 world_duplicate
              \<lparr>p_email = Some ''a@b.com'', p_source = None, p_discount_code = None,
               p_tags = None\<rparr> ''a@b.com'')],
      reply = Json 200 [(''success'', JBool True),
         (''message'', JStr ''Customer already exists - updated marketing consent''),
         (''note'', JStr ''Email was already in system'')]\<rparr>"
  by (simp add: shared_defs defs_1 sample_defs Let_def includes_422)

theorem create_only_handler_reports_422_as_updated_witness:
  "calls (webhook_handler_1 world_duplicate sample_env (post ''a@b.com'' None)) =
     [legacy_request ''shop.example'' ''token''
        (customerData_1 world_duplicate
           \<lparr>p_email = Some ''a@b.com'', p_source = None, p_discount_code = None,
            p_tags = None\<rparr> ''a@b.com'')] \<and>
   createShopifyCustomer world_duplicate
     (customerData_1 world_duplicate
        \<lparr>p_email = Some ''a@b.com'', p_source = None, p_discount_code = None,
         p_tags = None\<rparr> ''a@b.com'') ''token'' ''shop.example'' =
     Inl (JsError ''Shopify API Error: 422 - (errors)'' []) \<and>
   str_includes (message (JsError ''Shopify API Error: 422 - (errors)'' [])) ''422'' \<and>
   map ob_method (calls (webhook_handler_1 world_duplicate sample_env (post ''a@b.com'' None))) =
     [''POST''] \<and>
   reply (webhook_handler_1 world_duplicate sample_env (post ''a@b.com'' None)) =
     Json 200 [(''success'', JBool True),
               (''message'', JStr ''Customer already exists - updated marketing consent''),
               (''note'', JStr ''Email was already in system'')]"
proof -
  let ?cd = "customerData_1 world_duplicate
        \<lparr>p_email = Some ''a@b.com'', p_source = None, p_discount_code = None,
         p_tags = None\<rparr> ''a@b.com''"
  have tr: "calls (webhook_handler_1 world_duplicate sample_env (post ''a@b.com'' None)) =
     [legacy_request ''shop.example'' ''token'' ?cd]"
    using run_1_duplicate by simp
  have fails: "createShopifyCustomer world_duplicate ?cd ''token'' ''shop.example'' =
     Inl (JsError ''Shopify API Error: 422 - (errors)'' [])"
    by (simp add: createShopifyCustomer_def world_duplicate_def refused_def answers_def
        Let_def) (simp add: sample_platform_def)
  from create_only_handler_reports_422_as_updated [OF tr fails] tr fails
  show ?thesis by (simp add: includes_422 legacy_request_def)
qed

section \<open>Validation of the e-mail\<close>





section \<open>The bodies of the writes\<close>


lemma run_2_found:
  "webhook_handler_2 world_found sample_env (post ''a@b.com'' (Some ''vip'')) =
     \<lparr>calls =
        [search_request world_found ''shop.example'' ''token'' ''a@b.com'',
         update_request ''shop.example'' ''token''
           \<lparr>uc_id = ''7'', uc_email_marketing_consent = email_marketing_consent world_found 0,
            uc_tags = Some ''gold,vip''\<rparr>],
      reply = Json 200 [(''success'', JBool True),
         (''message'', JStr ''Customer already exists - updated marketing consent''),
         (''customer_id'', JId ''7''),
         (''email'', JStr ''a@b.com''),
         (''existing_customer'', JBool True)]\<rparr>"
  by (simp add: shared_defs defs_2 sample_defs Let_def)




text \<open>The calls of an invocation, when there are any, with the payload of an object body.\<close>

lemma members_upsert_2:
  "c \<in> set (calls (upsert_2 w d t p em)) \<Longrightarrow>
   c = search_request w d t em \<or> (\<exists>c0. c = update_request d t (updateData_2 w p c0)) \<or>
   c = create_request d t (customerData_2 w p em 0) \<or>
   c = create_request d t (customerData_2 w p em 1)"
  by (auto simp: upsert_2_def update_step_2_def create_step_2_def Let_def
      split: fetch_result.splits json_result.splits option.splits list.splits if_splits
        sum.splits)


lemma members_upsert_000:
  "c \<in> set (calls (upsert_000 w e d t p em)) \<Longrightarrow>
   c = search_request w d t em \<or> (\<exists>c0. c = update_request d t (updateData_000 w c0)) \<or>
   c = create_request d t (customerData_000 w p em 0) \<or>
   c = create_request d t (customerData_000 w p em 1)"
  by (auto simp: upsert_000_def update_step_000_def create_step_000_def Let_def
      split: fetch_result.splits json_result.splits option.splits list.splits if_splits
        sum.splits)


lemma members_upsert_001:
  "c \<in> set (calls (upsert_001 w d t p em)) \<Longrightarrow>
   c = search_request w d t em \<or> (\<exists>c0. c = update_request d t (updateData_001 w p c0)) \<or>
   c = create_request d t (customerData_001 w p em 0) \<or>
   c = create_request d t (customerData_001 w p em 1)"
  by (auto simp: upsert_001_def update_step_001_def create_step_001_def Let_def
      split: fetch_result.splits json_result.splits option.splits list.splits if_splits
        sum.splits)






lemma consent_shape:
  "\<exists>k'. email_marketing_consent w k =
     \<lparr>state = ''subscribed'', opt_in_level = ''single_opt_in'',
      consent_updated_at = toISOString w k'\<rparr>"
  by (auto simp: email_marketing_consent_def)

lemma consent_of_write [simp]:
  "uc_email_marketing_consent (updateData_2 w p c0) = email_marketing_consent w 0"
  "uc_email_marketing_consent (updateData_000 w c0) = email_marketing_consent w 0"
  "uc_email_marketing_consent (updateData_001 w p c0) = email_marketing_consent w 0"
  "cc_email_marketing_consent (customerData_2 w p em k) = email_marketing_consent w k"
  "cc_email_marketing_consent (customerData_000 w p em k) = email_marketing_consent w k"
  "cc_email_marketing_consent (customerData_001 w p em k) = email_marketing_consent w k"
  by (simp_all add: updateData_2_def updateData_000_def updateData_001_def customerData_2_def
      customerData_000_def customerData_001_def Let_def)

text \<open>A string body that parses to an object is handled as that object.\<close>

lemma string_body_2:
  "JSON_parse w s = Inr (JObject p) \<Longrightarrow>
   webhook_handler_2 w e \<lparr>req_method = m, req_body = BodyString s\<rparr> =
   webhook_handler_2 w e \<lparr>req_method = m, req_body = BodyObject p\<rparr>"
  by (simp add: webhook_handler_2_def parse_body_2_def)

lemma string_body_000:
  "JSON_parse w s = Inr (JObject p) \<Longrightarrow>
   part_000_handler w e \<lparr>req_method = m, req_body = BodyString s\<rparr> =
   part_000_handler w e \<lparr>req_method = m, req_body = BodyObject p\<rparr>"
  by (simp add: part_000_handler_def)

lemma writes_webhook_handler_2:
  assumes "c \<in> set (calls (webhook_handler_2 w e req))"
  shows "\<exists>p d t em. c = search_request w d t em \<or>
     (\<exists>c0. c = update_request d t (updateData_2 w p c0)) \<or>
     c = create_request d t (customerData_2 w p em 0) \<or>
     c = create_request d t (customerData_2 w p em 1)"
proof -
  from assms obtain s rest where "calls (webhook_handler_2 w e req) = s # rest"
    by (cases "calls (webhook_handler_2 w e req)") auto
  then obtain p where "webhook_handler_2 w e req =
      upsert_2 w (tmpl (SHOPIFY_SHOP_DOMAIN e)) (tmpl (SHOPIFY_ACCESS_TOKEN e)) p
        (tmpl (p_email p))"
    using webhook_handler_2_issues by blast
  with assms show ?thesis using members_upsert_2 by metis
qed

lemma writes_part_000_handler:
  assumes "c \<in> set (calls (part_000_handler w e req))"
  shows "\<exists>p d t em. c = search_request w d t em \<or>
     (\<exists>c0. c = update_request d t (updateData_000 w c0)) \<or>
     c = create_request d t (customerData_000 w p em 0) \<or>
     c = create_request d t (customerData_000 w p em 1)"
proof -
  from assms obtain s rest where "calls (part_000_handler w e req) = s # rest"
    by (cases "calls (part_000_handler w e req)") auto
  then obtain p where "part_000_handler w e req =
      upsert_000 w e (tmpl (SHOPIFY_SHOP_DOMAIN e)) (tmpl (SHOPIFY_ACCESS_TOKEN e)) p
        (tmpl (p_email p))"
    using part_000_handler_issues by blast
  with assms show ?thesis using members_upsert_000 by metis
qed

lemma writes_part_001_handler:
  assumes "c \<in> set (calls (part_001_handler w e req))"
  shows "\<exists>p d t em. c = search_request w d t em \<or>
     (\<exists>c0. c = update_request d t (updateData_001 w p c0)) \<or>
     c = create_request d t (customerData_001 w p em 0) \<or>
     c = create_request d t (customerData_001 w p em 1)"
proof -
  from assms obtain s rest where "calls (part_001_handler w e req) = s # rest"
    by (cases "calls (part_001_handler w e req)") auto
  then obtain p where "part_001_handler w e req =
      upsert_001 w (tmpl (SHOPIFY_SHOP_DOMAIN e)) (tmpl (SHOPIFY_ACCESS_TOKEN e)) p
        (tmpl (p_email p))"
    using part_001_handler_issues by blast
  with assms show ?thesis using members_upsert_001 by metis
qed

text \<open>
  C9 (as amended). Every write of the three find-or-create handlers, update body and
  create body alike, sets the marketing consent to state subscribed with opt-in level
  single_opt_in and a reading of the clock of the invocation as consent timestamp. The
  create-only first handler of src/api/webhook.js writes no consent object: its body
  has accepts_marketing true and marketing_opt_in_level confirmed_opt_in.
\<close>

theorem writes_record_subscribed_single_opt_in:
  assumes c: "c \<in> set (calls (H w e req))"
  shows "(H = webhook_handler_2 \<or> H = part_000_handler \<or> H = part_001_handler \<longrightarrow>
      (\<forall>u. ob_body c = UpdateData u \<longrightarrow>
         (\<exists>k. uc_email_marketing_consent u =
            \<lparr>state = ''subscribed'', opt_in_level = ''single_opt_in'',
             consent_updated_at = toISOString w k\<rparr>)) \<and>
      (\<forall>cd. ob_body c = CustomerData cd \<longrightarrow>
         (\<exists>k. cc_email_marketing_consent cd =
            \<lparr>state = ''subscribed'', opt_in_level = ''single_opt_in'',
             consent_updated_at = toISOString w k\<rparr>)) \<and>
      (\<forall>l. ob_body c \<noteq> LegacyData l)) \<and>
    (H = webhook_handler_1 \<longrightarrow>
      (\<exists>l. ob_body c = LegacyData l \<and> lc_accepts_marketing l \<and>
         lc_marketing_opt_in_level l = ''confirmed_opt_in''))"
proof -
  have upserts: "(\<forall>u. ob_body c = UpdateData u \<longrightarrow>
         (\<exists>k. uc_email_marketing_consent u =
            \<lparr>state = ''subscribed'', opt_in_level = ''single_opt_in'',
             consent_updated_at = toISOString w k\<rparr>)) \<and>
      (\<forall>cd. ob_body c = CustomerData cd \<longrightarrow>
         (\<exists>k. cc_email_marketing_consent cd =
            \<lparr>state = ''subscribed'', opt_in_level = ''single_opt_in'',
             consent_updated_at = toISOString w k\<rparr>)) \<and>
      (\<forall>l. ob_body c \<noteq> LegacyData l)"
    if H: "H = webhook_handler_2 \<or> H = part_000_handler \<or> H = part_001_handler"
  proof -
    from H consider (a) "H = webhook_handler_2" | (b) "H = part_000_handler"
      | (c) "H = part_001_handler" by blast
    then show ?thesis
    proof cases
      case a
      then show ?thesis
        using writes_webhook_handler_2 [of c w e req] c consent_shape [of w]
        by auto
    next
      case b
      then show ?thesis
        using writes_part_000_handler [of c w e req] c consent_shape [of w]
        by auto
    next
      case c': c
      then show ?thesis
        using writes_part_001_handler [of c w e req] c consent_shape [of w]
        by auto
    qed
  qed
  have legacy: "\<exists>l. ob_body c = LegacyData l \<and> lc_accepts_marketing l \<and>
         lc_marketing_opt_in_level l = ''confirmed_opt_in''"
    if H: "H = webhook_handler_1"
  proof -
    from c H have ne: "calls (webhook_handler_1 w e req) \<noteq> []" by auto
    then obtain q where "webhook_handler_1 w e req = process_1 w e q"
      using webhook_handler_1_reaches by blast
    with ne c H have "c = legacy_request (tmpl (SHOPIFY_SHOP_DOMAIN e))
        (tmpl (SHOPIFY_ACCESS_TOKEN e)) (customerData_1 w q (tmpl (p_email q)))"
      using process_1_issues [of w e q] by simp
    then show ?thesis by (simp add: legacy_request_def customerData_1_def)
  qed
  from upserts legacy show ?thesis by blast
qed

lemma run_1_new:
  "webhook_handler_1 world_new sample_env (post ''a@b.com'' None) =
     \<lparr>calls =
        [legacy_request ''shop.example'' ''token''
           \<lparr>lc_email = ''a@b.com'', lc_accepts_marketing = True,
            lc_tags = ''newsletter,discount-popup,popup-subscriber'',
            lc_note = ''Subscribed via discount popup (unknown) on 5/1/2024. Interested in discount: N/A'',
            lc_marketing_opt_in_level = ''confirmed_opt_in'', lc_verified_email = True\<rparr>],
      reply = Json 200 [(''success'', JBool True),
                        (''customer_id'', JId ''11''),
                        (''email'', JStr ''a@b.com''),
                        (''message'', JStr ''Customer created successfully'')]\<rparr>"
  by (simp add: shared_defs defs_1 sample_defs Let_def)

theorem writes_record_subscribed_single_opt_in_witness:
  "req_body (post ''a@b.com'' (Some ''vip'')) =
     BodyObject \<lparr>p_email = Some ''a@b.com'', p_source = None, p_discount_code = None,
                 p_tags = Some ''vip''\<rparr> \<and>
   update_request ''shop.example'' ''token''
        \<lparr>uc_id = ''7'', uc_email_marketing_consent = email_marketing_consent world_found 0,
         uc_tags = Some ''gold,vip''\<rparr>
     \<in> set (calls (webhook_handler_2 world_found sample_env (post ''a@b.com'' (Some ''vip'')))) \<and>
   (\<exists>k. email_marketing_consent world_found 0 =
      \<lparr>state = ''subscribed'', opt_in_level = ''single_opt_in'',
       consent_updated_at = toISOString world_found k\<rparr>)"
proof -
  let ?p = "\<lparr>p_email = Some ''a@b.com'', p_source = None, p_discount_code = None,
                 p_tags = Some ''vip''\<rparr>"
  let ?uc = "\<lparr>uc_id = ''7'', uc_email_marketing_consent = email_marketing_consent world_found 0,
         uc_tags = Some ''gold,vip''\<rparr>"
  let ?u = "update_request ''shop.example'' ''token'' ?uc"
  have b: "req_body (post ''a@b.com'' (Some ''vip'')) = BodyObject ?p" by (simp add: post_def)
  have c: "?u \<in> set (calls (webhook_handler_2 world_found sample_env
      (post ''a@b.com'' (Some ''vip''))))"
    using run_2_found by simp
  have ub: "ob_body ?u = UpdateData ?uc" by simp
  from writes_record_subscribed_single_opt_in [where H = webhook_handler_2, OF c] ub
  have "\<exists>k. uc_email_marketing_consent ?uc =
      \<lparr>state = ''subscribed'', opt_in_level = ''single_opt_in'',
       consent_updated_at = toISOString world_found k\<rparr>"
    by blast
  with b c show ?thesis by simp
qed

theorem create_only_handler_records_confirmed_opt_in:
  "map ob_body (calls (webhook_handler_1 world_new sample_env (post ''a@b.com'' None))) =
     [LegacyData
        \<lparr>lc_email = ''a@b.com'', lc_accepts_marketing = True,
         lc_tags = ''newsletter,discount-popup,popup-subscriber'',
         lc_note = ''Subscribed via discount popup (unknown) on 5/1/2024. Interested in discount: N/A'',
         lc_marketing_opt_in_level = ''confirmed_opt_in'', lc_verified_email = True\<rparr>] \<and>
   ''confirmed_opt_in'' \<noteq> ''single_opt_in''"
  using run_1_new by (simp add: legacy_request_def)

section \<open>The replies on success\<close>

















end
